theory Spec2Isabelle
  imports Main
begin

section \<open>Data model of \<^verbatim>\<open>server.js\<close>\<close>

text \<open>
  The per-session settings object (\<^verbatim>\<open>DEFAULT_SETTINGS\<close>, lines 39-51). JavaScript
  numbers that hold counts and seconds are integers here.
\<close>

record settings =
  minDelay :: int
  maxDelay :: int
  batchSize :: int
  batchRestMin :: int
  batchRestMax :: int
  warmupMessages :: int
  warmupDelayMin :: int
  warmupDelayMax :: int
  dailyLimit :: int
  simulateTyping :: bool
  addRandomPause :: bool

definition DEFAULT_SETTINGS :: settings where
  "DEFAULT_SETTINGS =
     \<lparr>minDelay = 8, maxDelay = 15, batchSize = 25, batchRestMin = 90, batchRestMax = 120,
      warmupMessages = 10, warmupDelayMin = 15, warmupDelayMax = 25, dailyLimit = 300,
      simulateTyping = True, addRandomPause = True\<rparr>"

text \<open>\<^verbatim>\<open>dailyCounter = { date, count }\<close>; the date is the text of \<^verbatim>\<open>toDateString()\<close>.\<close>

record dailyCounter =
  date :: string
  count :: int

text \<open>
  A contact as the request body carries it. A property that is missing (or \<^verbatim>\<open>null\<close>)
  is \<open>None\<close>.
\<close>

record contact =
  phone :: "string option"
  name :: "string option"

datatype status = Success | Failed

text \<open>
  A result entry \<^verbatim>\<open>{ phone, name, status, error }\<close> (lines 674 and 681); \<open>error\<close> is
  the caught error's message and is absent on success.
\<close>

record result =
  r_phone :: "string option"
  r_name :: "string option"
  status :: status
  error :: "string option"

text \<open>\<^verbatim>\<open>currentJob = { total, sent, failed, results }\<close> (line 617).\<close>

record job =
  total_n :: nat
  sent :: nat
  failed :: nat
  results :: "result list"

text \<open>
  The session object of \<^verbatim>\<open>createSession\<close> (lines 67-86), without the client handle,
  the chat list and the socket id, which are passed separately where they matter.
\<close>

record session =
  isReady :: bool
  settings :: settings
  dailyCounter :: dailyCounter
  sessionCounter :: int
  sendingInProgress :: bool
  currentJob :: "job option"

text \<open>What a JavaScript statement throws when it does not complete.\<close>

datatype js_error = TypeError | Error string

section \<open>Helper functions (lines 269-356)\<close>

subsection \<open>Delay policy\<close>

text \<open>
  \<^verbatim>\<open>getHumanizedDelay(session)\<close>, lines 269-288. What the three expressions over
  \<^verbatim>\<open>Math.random()\<close> evaluate to depends on the generator and on the rounding of
  floating-point arithmetic, so their values are arguments, in the order of the source:
  \<open>draw n m\<close> is the value of \<^verbatim>\<open>Math.floor(Math.random() * n + m)\<close> for the numbers
  \<open>n\<close> and \<open>m\<close>, \<open>pause\<close> the value of \<^verbatim>\<open>Math.random() < 0.1\<close> and \<open>extra\<close> the
  value of \<^verbatim>\<open>Math.floor(Math.random() * 20)\<close>; the last two are only read where the
  source evaluates them. The function assigns to nothing: it returns the delay in
  milliseconds and no state.
\<close>

definition getHumanizedDelay :: "session \<Rightarrow> (int \<Rightarrow> int \<Rightarrow> int) \<Rightarrow> bool \<Rightarrow> int \<Rightarrow> int" where
  "getHumanizedDelay session draw pause extra =
     (let st = settings session;
          (minD, maxD) =
            (if sessionCounter session < warmupMessages st
             then (warmupDelayMin st, warmupDelayMax st)
             else (minDelay st, maxDelay st));
          delay = draw (maxD - minD + 1) minD;
          delay' =
            (if addRandomPause st \<and> pause
             then delay + (extra + 10)
             else delay)
      in delay' * 1000)"

subsection \<open>Batch scheduler\<close>

text \<open>
  The remainder operator \<^verbatim>\<open>%\<close> on integers: \<^verbatim>\<open>NaN\<close> (\<open>None\<close>) for a zero
  divisor, otherwise the remainder of the magnitudes with the sign of the dividend.
\<close>

definition js_rem :: "int \<Rightarrow> int \<Rightarrow> int option" where
  "js_rem a b = (if b = 0 then None else Some (sgn a * (\<bar>a\<bar> mod \<bar>b\<bar>)))"

text \<open>
  \<^verbatim>\<open>needsBatchRest(session, messageIndex)\<close>, lines 290-292. \<^verbatim>\<open>NaN === 0\<close> is false.
\<close>

definition needsBatchRest :: "session \<Rightarrow> nat \<Rightarrow> bool" where
  "needsBatchRest session messageIndex =
     (messageIndex > 0 \<and> js_rem (int messageIndex) (batchSize (settings session)) = Some 0)"

text \<open>
  \<^verbatim>\<open>getBatchRestDuration(session)\<close>, lines 294-298, in milliseconds; \<open>draw n m\<close> is
  the value of \<^verbatim>\<open>Math.floor(Math.random() * n + m)\<close>, as above.
\<close>

definition getBatchRestDuration :: "session \<Rightarrow> (int \<Rightarrow> int \<Rightarrow> int) \<Rightarrow> int" where
  "getBatchRestDuration session draw =
     (let mn = batchRestMin (settings session);
          mx = batchRestMax (settings session)
      in draw (mx - mn + 1) mn * 1000)"

subsection \<open>Daily quota\<close>

text \<open>
  \<^verbatim>\<open>checkDailyLimit(session)\<close>, lines 310-317. \<open>today\<close> is the value of
  \<^verbatim>\<open>new Date().toDateString()\<close> at the call; the session is returned as the call
  leaves it.
\<close>

definition checkDailyLimit :: "string \<Rightarrow> session \<Rightarrow> bool \<times> session" where
  "checkDailyLimit today session =
     (let session' =
            (if date (dailyCounter session) \<noteq> today
             then session\<lparr>dailyCounter := \<lparr>date = today, count = 0\<rparr>, sessionCounter := 0\<rparr>
             else session)
      in (count (dailyCounter session') < dailyLimit (settings session'), session'))"

subsection \<open>Address normalisation\<close>

definition is_digit :: "char \<Rightarrow> bool" where
  "is_digit c = (c \<in> set ''0123456789'')"

text \<open>
  \<^verbatim>\<open>formatPhoneNumber(phone)\<close>, lines 319-324. \<^verbatim>\<open>phone.toString()\<close> throws a
  TypeError on a missing phone; \<^verbatim>\<open>replace(/\D/g, '')\<close> keeps the decimal digits.
\<close>

definition formatPhoneNumber :: "string option \<Rightarrow> js_error + string" where
  "formatPhoneNumber ph =
     (case ph of
        None \<Rightarrow> Inl TypeError
      | Some p \<Rightarrow>
          (let cleaned = filter is_digit p;
               cleaned = (if take 1 cleaned = ''0'' then ''62'' @ drop 1 cleaned else cleaned);
               cleaned = (if CHR ''@'' \<notin> set cleaned then cleaned @ ''@c.us'' else cleaned)
           in Inr cleaned))"

subsection \<open>Personalisation\<close>

text \<open>
  The regular expressions of \<^verbatim>\<open>replaceVariables\<close> are literal texts matched with
  the flags \<^verbatim>\<open>g\<close> and \<^verbatim>\<open>i\<close>: two characters match when their upper-case forms
  are equal, and only the letters a-z have one that differs.
\<close>

definition to_upper :: "char \<Rightarrow> char" where
  "to_upper c =
     (case map_of (zip ''abcdefghijklmnopqrstuvwxyz'' ''ABCDEFGHIJKLMNOPQRSTUVWXYZ'') c of
        None \<Rightarrow> c
      | Some u \<Rightarrow> u)"

definition matches_at :: "string \<Rightarrow> string \<Rightarrow> bool" where
  "matches_at pat s =
     (length pat \<le> length s \<and> map to_upper (take (length pat) s) = map to_upper pat)"

text \<open>
  The replacement text of \<^verbatim>\<open>String.prototype.replace\<close> is not copied as it is: a
  dollar sign followed by a dollar sign, an ampersand, a backquote (\<open>0x60\<close>) or a quote
  (\<open>0x27\<close>) stands for a dollar sign, the matched text, the text before the match and
  the text after it. The patterns have no capture group, so every other dollar sign is
  copied.
\<close>

fun get_substitution :: "string \<Rightarrow> string \<Rightarrow> string \<Rightarrow> string \<Rightarrow> string" where
  "get_substitution matched pre post [] = []"
| "get_substitution matched pre post [c] = [c]"
| "get_substitution matched pre post (c # d # r) =
     (if c = CHR ''$'' \<and> d = CHR ''$'' then CHR ''$'' # get_substitution matched pre post r
      else if c = CHR ''$'' \<and> d = CHR ''&'' then matched @ get_substitution matched pre post r
      else if c = CHR ''$'' \<and> d = CHR 0x60 then pre @ get_substitution matched pre post r
      else if c = CHR ''$'' \<and> d = CHR 0x27 then post @ get_substitution matched pre post r
      else c # get_substitution matched pre post (d # r))"

text \<open>
  \<^verbatim>\<open>s.replace(/pat/gi, repl)\<close> for a literal, non-empty \<open>pat\<close>: the matches are found
  from left to right and do not overlap; \<open>pre\<close> is the part of the subject already
  passed (the text before the match).
\<close>

function replace_all :: "string \<Rightarrow> string \<Rightarrow> string \<Rightarrow> string \<Rightarrow> string" where
  "replace_all pat repl pre [] = []"
| "replace_all pat repl pre (c # cs) =
     (if pat \<noteq> [] \<and> matches_at pat (c # cs)
      then get_substitution (take (length pat) (c # cs)) pre (drop (length pat) (c # cs)) repl
           @ replace_all pat repl (pre @ take (length pat) (c # cs)) (drop (length pat) (c # cs))
      else c # replace_all pat repl (pre @ [c]) cs)"
  by pat_completeness auto
termination
  by (relation "measure (\<lambda>(pat, repl, pre, s). length s)") auto

text \<open>\<^verbatim>\<open>v || ''\<close> for a property that holds a text or is missing.\<close>

definition or_empty :: "string option \<Rightarrow> string" where
  "or_empty v = (case v of None \<Rightarrow> [] | Some x \<Rightarrow> x)"

text \<open>
  \<^verbatim>\<open>replaceVariables(template, contact)\<close>, lines 350-356. \<^verbatim>\<open>template.replace\<close>
  throws a TypeError when the template is missing.
\<close>

definition replaceVariables :: "string option \<Rightarrow> contact \<Rightarrow> js_error + string" where
  "replaceVariables template contact =
     (case template of
        None \<Rightarrow> Inl TypeError
      | Some t \<Rightarrow>
          Inr (replace_all ''{nomor}'' (or_empty (phone contact)) []
                (replace_all ''{phone}'' (or_empty (phone contact)) []
                  (replace_all ''{nama}'' (or_empty (name contact)) []
                    (replace_all ''{name}'' (or_empty (name contact)) [] t)))))"

text \<open>
  A text holds a placeholder when one of the four patterns matches somewhere in it.
\<close>

fun occurs :: "string \<Rightarrow> string \<Rightarrow> bool" where
  "occurs pat [] = False"
| "occurs pat (c # cs) = (matches_at pat (c # cs) \<or> occurs pat cs)"

definition has_placeholder :: "string \<Rightarrow> bool" where
  "has_placeholder s =
     (occurs ''{name}'' s \<or> occurs ''{nama}'' s \<or> occurs ''{phone}'' s \<or> occurs ''{nomor}'' s)"

section \<open>HTTP handlers\<close>

datatype response =
    Status404 string
  | Status400 string
  | SendingStarted nat
  | SettingsSaved settings

subsection \<open>Settings update\<close>

text \<open>
  The body of a settings request: each key is present or not. The handlers merge it with
  the object spread \<^verbatim>\<open>{ ...settings, ...req.body }\<close>: a key of the body replaces the
  stored value, every other key keeps it.
\<close>

record settings_body =
  b_minDelay :: "int option"
  b_maxDelay :: "int option"
  b_batchSize :: "int option"
  b_batchRestMin :: "int option"
  b_batchRestMax :: "int option"
  b_warmupMessages :: "int option"
  b_warmupDelayMin :: "int option"
  b_warmupDelayMax :: "int option"
  b_dailyLimit :: "int option"
  b_simulateTyping :: "bool option"
  b_addRandomPause :: "bool option"

definition spread :: "'a \<Rightarrow> 'a option \<Rightarrow> 'a" where
  "spread old new = (case new of None \<Rightarrow> old | Some v \<Rightarrow> v)"

definition merge_settings :: "settings \<Rightarrow> settings_body \<Rightarrow> settings" where
  "merge_settings st body =
     \<lparr>minDelay = spread (minDelay st) (b_minDelay body),
      maxDelay = spread (maxDelay st) (b_maxDelay body),
      batchSize = spread (batchSize st) (b_batchSize body),
      batchRestMin = spread (batchRestMin st) (b_batchRestMin body),
      batchRestMax = spread (batchRestMax st) (b_batchRestMax body),
      warmupMessages = spread (warmupMessages st) (b_warmupMessages body),
      warmupDelayMin = spread (warmupDelayMin st) (b_warmupDelayMin body),
      warmupDelayMax = spread (warmupDelayMax st) (b_warmupDelayMax body),
      dailyLimit = spread (dailyLimit st) (b_dailyLimit body),
      simulateTyping = spread (simulateTyping st) (b_simulateTyping body),
      addRandomPause = spread (addRandomPause st) (b_addRandomPause body)\<rparr>"

text \<open>
  \<^verbatim>\<open>POST /api/session/:sessionId/settings\<close>, lines 522-534. The first argument is what
  \<^verbatim>\<open>getSession(sessionId)\<close> returns; the result is the response and the session as the
  handler leaves it.
\<close>

definition post_session_settings ::
  "session option \<Rightarrow> settings_body \<Rightarrow> response \<times> session option" where
  "post_session_settings found body =
     (case found of
        None \<Rightarrow> (Status404 ''Session not found'', None)
      | Some session \<Rightarrow>
          (let session' = session\<lparr>settings := merge_settings (settings session) body\<rparr>
           in (SettingsSaved (settings session'), Some session')))"

text \<open>
  \<^verbatim>\<open>POST /api/settings\<close> of the single-user server, lines 1129-1133, on its global
  \<^verbatim>\<open>settings\<close>.
\<close>

definition post_api_settings :: "settings \<Rightarrow> settings_body \<Rightarrow> response \<times> settings" where
  "post_api_settings st body =
     (let st' = merge_settings st body in (SettingsSaved st', st'))"

subsection \<open>Start of a run\<close>

text \<open>The body of a send-bulk request: \<^verbatim>\<open>{ contacts, message, mediaPath }\<close>.\<close>

record bulk_body =
  b_contacts :: "contact list option"
  b_message :: "string option"
  b_mediaPath :: "string option"

text \<open>A text is truthy when it is present and not empty.\<close>

definition truthy :: "string option \<Rightarrow> bool" where
  "truthy v = (case v of None \<Rightarrow> False | Some x \<Rightarrow> x \<noteq> [])"

text \<open>
  \<^verbatim>\<open>POST /api/session/:sessionId/send-bulk\<close>, lines 590-623, up to the response. An
  accepted request then calls \<^verbatim>\<open>processBulkSend\<close> (below) with the contacts, the
  message and the media path of the body.
\<close>

definition send_bulk :: "session option \<Rightarrow> bulk_body \<Rightarrow> response \<times> session option" where
  "send_bulk found body =
     (case found of
        None \<Rightarrow> (Status404 ''Session not found'', None)
      | Some session \<Rightarrow>
          if \<not> isReady session then (Status400 ''WhatsApp not connected'', Some session)
          else if sendingInProgress session then (Status400 ''Sending in progress'', Some session)
          else
            (case b_contacts body of
               None \<Rightarrow> (Status400 ''No contacts'', Some session)
             | Some cs \<Rightarrow>
                 if length cs = 0 then (Status400 ''No contacts'', Some session)
                 else if \<not> truthy (b_message body) \<and> \<not> truthy (b_mediaPath body)
                 then (Status400 ''Message or media required'', Some session)
                 else
                   (SendingStarted (length cs),
                    Some (session\<lparr>sendingInProgress := True,
                            currentJob :=
                              Some \<lparr>total_n = length cs, sent = 0, failed = 0, results = []\<rparr>\<rparr>))))"

text \<open>\<^verbatim>\<open>POST /api/session/:sessionId/stop\<close>, lines 576-586.\<close>

definition post_stop :: "session option \<Rightarrow> session option" where
  "post_stop found =
     (case found of None \<Rightarrow> None | Some session \<Rightarrow> Some (session\<lparr>sendingInProgress := False\<rparr>))"

section \<open>The send loop\<close>

subsection \<open>What the run meets outside itself\<close>

text \<open>
  \<^verbatim>\<open>processBulkSend\<close> is an \<^verbatim>\<open>async\<close> function: other code of the server runs only
  while it waits. The environment of a run says, for the pass of the loop with index
  \<open>i\<close>, what each call outside the function answers, what the expressions over
  \<^verbatim>\<open>Math.random()\<close> evaluate to, and what happened to the session during each wait:
  whether the stop handler ran (\<open>stop_request\<close>), and what the code that ran after it
  did to the session (\<open>others\<close>): the handlers of further requests, among them a start
  request, which the start handler accepts once the flag is cleared, and the passes of
  another call of \<^verbatim>\<open>processBulkSend\<close> for the same session. A call that throws answers
  \<open>Inl\<close> with the error's message.
\<close>

datatype suspension = BatchRestWait | TransportCalls | DelayWait

datatype payload = Text string | Media string string

text \<open>
  The calls of \<^verbatim>\<open>log\<close>, \<^verbatim>\<open>socket.emit\<close> and \<^verbatim>\<open>saveSessionData\<close> in \<^verbatim>\<open>processBulkSend\<close>,
  by line: 632, 636, 641, 642, 648, 649, 676, 677, 683, 684, 690, 691, 697, 699, 700.
  \<^verbatim>\<open>log\<close> appends to a file and \<^verbatim>\<open>saveSessionData\<close> writes one, so each of them can
  throw.
\<close>

datatype site =
    LogStart | LogStopped | LogLimit | EmitLimit | LogRest | EmitRest
  | LogSent | EmitSent | LogFailed | EmitFailed | LogWaiting | EmitWaiting
  | SaveData | EmitComplete | LogComplete

record env =
  today_at :: "nat \<Rightarrow> string"
  stop_request :: "nat \<Rightarrow> suspension \<Rightarrow> bool"
  others :: "nat \<Rightarrow> suspension \<Rightarrow> session \<Rightarrow> session"
  io_error :: "nat \<Rightarrow> site \<Rightarrow> string option"
  rest_draw :: "nat \<Rightarrow> int \<Rightarrow> int \<Rightarrow> int"
  delay_draw :: "nat \<Rightarrow> int \<Rightarrow> int \<Rightarrow> int"
  pause_chance :: "nat \<Rightarrow> bool"
  pause_draw :: "nat \<Rightarrow> int"
  isRegisteredUser :: "nat \<Rightarrow> string \<Rightarrow> string + bool"
  typing_calls :: "nat \<Rightarrow> string \<Rightarrow> string + unit"
  existsSync :: "nat \<Rightarrow> string \<Rightarrow> bool"
  fromFilePath :: "nat \<Rightarrow> string \<Rightarrow> string + string"
  sendMessage :: "nat \<Rightarrow> string \<Rightarrow> payload \<Rightarrow> string + unit"

text \<open>
  What \<^verbatim>\<open>processBulkSend\<close> itself emits on the session's socket with \<^verbatim>\<open>socket.emit\<close>,
  in order. The lines written by \<^verbatim>\<open>log\<close>, which \<^verbatim>\<open>log\<close> also sends to the session's
  socket as \<^verbatim>\<open>log\<close> events (lines 115-130), are not listed.
\<close>

datatype event =
    LimitReached int
  | BatchRest int int
  | MessageSent result job
  | MessageFailed result job
  | Waiting int nat nat bool
  | BulkComplete "job option"

text \<open>
  \<^verbatim>\<open>log(sessionId, ...)\<close> and \<^verbatim>\<open>saveSessionData(sessionId, session)\<close> at a site of the
  pass \<open>i\<close>: \<open>Inl\<close> is the message of the error thrown.
\<close>

definition log :: "env \<Rightarrow> nat \<Rightarrow> site \<Rightarrow> string + unit" where
  "log env i site = (case io_error env i site of Some m \<Rightarrow> Inl m | None \<Rightarrow> Inr ())"

definition saveSessionData :: "env \<Rightarrow> nat \<Rightarrow> string + unit" where
  "saveSessionData env i = (case io_error env i SaveData of Some m \<Rightarrow> Inl m | None \<Rightarrow> Inr ())"

text \<open>
  The events after an \<^verbatim>\<open>if (socket) socket.emit(...)\<close> that returned: nothing is emitted
  when the session has no socket.
\<close>

definition emit :: "bool \<Rightarrow> event \<Rightarrow> event list \<Rightarrow> event list" where
  "emit socket ev evs = (if socket then evs @ [ev] else evs)"

text \<open>\<^verbatim>\<open>if (socket) socket.emit(...)\<close> at a site: the call is made only with a socket.\<close>

definition socket_emit ::
  "env \<Rightarrow> bool \<Rightarrow> nat \<Rightarrow> site \<Rightarrow> event \<Rightarrow> event list \<Rightarrow> string + event list" where
  "socket_emit env socket i site ev evs =
     (if socket
      then (case io_error env i site of
              Some m \<Rightarrow> Inl m
            | None \<Rightarrow> Inr (emit socket ev evs))
      else Inr evs)"

text \<open>A \<^verbatim>\<open>log\<close> line followed by the \<^verbatim>\<open>socket.emit\<close> of the same news.\<close>

definition tell ::
  "env \<Rightarrow> bool \<Rightarrow> nat \<Rightarrow> site \<Rightarrow> site \<Rightarrow> event \<Rightarrow> event list \<Rightarrow> string + event list" where
  "tell env socket i log_site emit_site ev evs =
     (case log env i log_site of
        Inl m \<Rightarrow> Inl m
      | Inr u \<Rightarrow> socket_emit env socket i emit_site ev evs)"

text \<open>
  The session after a wait: when the stop handler (\<open>post_stop\<close>) ran during it, the
  flag \<^verbatim>\<open>sendingInProgress\<close> is cleared; then the other code that ran has changed the
  session.
\<close>

definition resume :: "env \<Rightarrow> nat \<Rightarrow> suspension \<Rightarrow> session \<Rightarrow> session" where
  "resume env i w session =
     others env i w
       (if stop_request env i w then session\<lparr>sendingInProgress := False\<rparr> else session)"

subsection \<open>One recipient\<close>

text \<open>
  \<^verbatim>\<open>simulateTyping(session, chatId)\<close>, lines 300-308: the calls on the chat are inside
  a \<^verbatim>\<open>try\<close> whose \<^verbatim>\<open>catch\<close> is empty.
\<close>

definition simulateTyping_fn :: "env \<Rightarrow> session \<Rightarrow> nat \<Rightarrow> string \<Rightarrow> string + unit" where
  "simulateTyping_fn env session i chatId =
     (if \<not> simulateTyping (settings session) then Inr ()
      else (case typing_calls env i chatId of Inl e \<Rightarrow> Inr () | Inr u \<Rightarrow> Inr ()))"

text \<open>
  The calls inside the \<^verbatim>\<open>try\<close> of the loop, lines 658-668, up to the last
  \<^verbatim>\<open>sendMessage\<close>: \<open>Inl\<close> is the message of the error the \<^verbatim>\<open>catch\<close> receives.
\<close>

definition try_send ::
  "env \<Rightarrow> session \<Rightarrow> nat \<Rightarrow> string \<Rightarrow> string \<Rightarrow> string option \<Rightarrow> string + unit" where
  "try_send env session i ph personalizedMessage mediaPath =
     (case isRegisteredUser env i ph of
        Inl e \<Rightarrow> Inl e
      | Inr isRegistered \<Rightarrow>
          if \<not> isRegistered then Inl ''Not registered on WhatsApp''
          else
            (case simulateTyping_fn env session i ph of
               Inl e \<Rightarrow> Inl e
             | Inr u \<Rightarrow>
                 (case mediaPath of
                    None \<Rightarrow> sendMessage env i ph (Text personalizedMessage)
                  | Some path \<Rightarrow>
                      if path \<noteq> [] \<and> existsSync env i path
                      then (case fromFilePath env i path of
                              Inl e \<Rightarrow> Inl e
                            | Inr media \<Rightarrow> sendMessage env i ph (Media media personalizedMessage))
                      else sendMessage env i ph (Text personalizedMessage))))"

text \<open>
  The \<^verbatim>\<open>catch\<close>, lines 680-684, for an error with the message \<open>msg\<close>. It returns the
  error that leaves it, if any: reading \<^verbatim>\<open>session.currentJob.failed\<close> throws a TypeError
  when there is no job, and nothing catches what \<^verbatim>\<open>log\<close> or \<^verbatim>\<open>socket.emit\<close> throw here.
\<close>

definition catch_block ::
  "env \<Rightarrow> bool \<Rightarrow> nat \<Rightarrow> contact \<Rightarrow> string \<Rightarrow> session \<times> event list \<Rightarrow>
   js_error option \<times> session \<times> event list" where
  "catch_block env socket i contact msg st =
     (let (session, evs) = st in
      case currentJob session of
        None \<Rightarrow> (Some TypeError, session, evs)
      | Some job \<Rightarrow>
          (let res = \<lparr>r_phone = phone contact, r_name = name contact,
                      status = Failed, error = Some msg\<rparr>;
               job' = job\<lparr>failed := failed job + 1, results := results job @ [res]\<rparr>;
               session' = session\<lparr>currentJob := Some job'\<rparr>
           in case tell env socket i LogFailed EmitFailed (MessageFailed res job') evs of
                Inl m \<Rightarrow> (Some (Error m), session', evs)
              | Inr evs' \<Rightarrow> (None, session', evs')))"

text \<open>
  The end of the \<^verbatim>\<open>try\<close>, lines 670-677, with the \<^verbatim>\<open>catch\<close>; \<open>sending\<close> is what the
  calls before gave. The counters are raised and the entry is appended before \<^verbatim>\<open>log\<close>
  and \<^verbatim>\<open>socket.emit\<close> are called, inside the \<^verbatim>\<open>try\<close>: when one of the two throws, the
  \<^verbatim>\<open>catch\<close> runs on the job that already counts the recipient as sent. Reading
  \<^verbatim>\<open>session.currentJob.sent\<close> throws a TypeError when there is no job; the \<^verbatim>\<open>catch\<close>
  receives it and throws it again at \<^verbatim>\<open>session.currentJob.failed\<close>.
\<close>

definition record_outcome ::
  "env \<Rightarrow> bool \<Rightarrow> nat \<Rightarrow> contact \<Rightarrow> string + unit \<Rightarrow> session \<times> event list \<Rightarrow>
   js_error option \<times> session \<times> event list" where
  "record_outcome env socket i contact sending st =
     (let (session, evs) = st in
      case sending of
        Inl msg \<Rightarrow> catch_block env socket i contact msg (session, evs)
      | Inr u \<Rightarrow>
          (case currentJob session of
             None \<Rightarrow> (Some TypeError, session, evs)
           | Some job \<Rightarrow>
               (let res = \<lparr>r_phone = phone contact, r_name = name contact,
                           status = Success, error = None\<rparr>;
                    job' = job\<lparr>sent := sent job + 1, results := results job @ [res]\<rparr>;
                    session' = session
                      \<lparr>currentJob := Some job',
                       dailyCounter := (dailyCounter session)
                         \<lparr>count := count (dailyCounter session) + 1\<rparr>,
                       sessionCounter := sessionCounter session + 1\<rparr>
                in case tell env socket i LogSent EmitSent (MessageSent res job') evs of
                     Inl m \<Rightarrow> catch_block env socket i contact m (session', evs)
                   | Inr evs' \<Rightarrow> (None, session', evs'))))"

subsection \<open>The loop of \<^verbatim>\<open>processBulkSend\<close>\<close>

text \<open>
  How the function ends: the loop ran out of contacts, one of its two \<^verbatim>\<open>break\<close>s was
  taken at the top of the pass with the given index, or a statement outside the
  \<^verbatim>\<open>try\<close> threw there and the function was left at once.
\<close>

datatype outcome = Completed | Stopped nat | QuotaExhausted nat | Threw nat js_error

text \<open>The batch rest, lines 646-651, with the wait at its end.\<close>

definition batch_rest ::
  "env \<Rightarrow> bool \<Rightarrow> nat \<Rightarrow> session \<times> event list \<Rightarrow> string + session \<times> event list" where
  "batch_rest env socket i st =
     (let (session, evs) = st in
      if needsBatchRest session i
      then (let restDuration = getBatchRestDuration session (rest_draw env i)
            in case tell env socket i LogRest EmitRest
                      (BatchRest (restDuration div 1000) (int i div batchSize (settings session)))
                      evs of
                 Inl m \<Rightarrow> Inl m
               | Inr evs' \<Rightarrow> Inr (resume env i BatchRestWait session, evs'))
      else Inr (session, evs))"

text \<open>The wait before the next recipient, lines 687-693; \<open>n\<close> is \<^verbatim>\<open>contacts.length\<close>.\<close>

definition wait_next ::
  "env \<Rightarrow> bool \<Rightarrow> nat \<Rightarrow> nat \<Rightarrow> session \<times> event list \<Rightarrow> string + session \<times> event list" where
  "wait_next env socket n i st =
     (let (session, evs) = st in
      if int i < int n - 1 \<and> sendingInProgress session
      then (let delay = getHumanizedDelay session
                          (delay_draw env i) (pause_chance env i) (pause_draw env i);
                isWarmup = (sessionCounter session \<le> warmupMessages (settings session))
            in case tell env socket i LogWaiting EmitWaiting
                      (Waiting (delay div 1000) (i + 2) n isWarmup) evs of
                 Inl m \<Rightarrow> Inl m
               | Inr evs' \<Rightarrow> Inr (resume env i DelayWait session, evs'))
      else Inr (session, evs))"

text \<open>
  One pass of the \<^verbatim>\<open>for\<close> loop, lines 635-693, for an index \<open>i\<close> below
  \<^verbatim>\<open>contacts.length\<close>. \<open>Some\<close> outcome: the loop is left; \<open>None\<close>: it goes on with
  \<open>i + 1\<close>.
\<close>

definition loop_body ::
  "env \<Rightarrow> bool \<Rightarrow> contact list \<Rightarrow> string option \<Rightarrow> string option \<Rightarrow> nat \<Rightarrow>
   session \<times> event list \<Rightarrow> outcome option \<times> session \<times> event list" where
  "loop_body env socket cs messageTemplate mediaPath i st =
     (let (session, evs) = st in
      if \<not> sendingInProgress session
      then (case log env i LogStopped of
              Inl m \<Rightarrow> (Some (Threw i (Error m)), session, evs)
            | Inr u \<Rightarrow> (Some (Stopped i), session, evs))
      else
        (let (allowed, session) = checkDailyLimit (today_at env i) session in
         if \<not> allowed
         then (case tell env socket i LogLimit EmitLimit
                       (LimitReached (dailyLimit (settings session))) evs of
                 Inl m \<Rightarrow> (Some (Threw i (Error m)), session, evs)
               | Inr evs' \<Rightarrow> (Some (QuotaExhausted i), session, evs'))
         else
           (case batch_rest env socket i (session, evs) of
              Inl m \<Rightarrow> (Some (Threw i (Error m)), session, evs)
            | Inr (session, evs) \<Rightarrow>
                (let contact = cs ! i
                 in case formatPhoneNumber (phone contact) of
                      Inl e \<Rightarrow> (Some (Threw i e), session, evs)
                    | Inr ph \<Rightarrow>
                        (case replaceVariables messageTemplate contact of
                           Inl e \<Rightarrow> (Some (Threw i e), session, evs)
                         | Inr personalizedMessage \<Rightarrow>
                             (let sending = try_send env session i ph personalizedMessage mediaPath;
                                  session = resume env i TransportCalls session
                              in case record_outcome env socket i contact sending (session, evs) of
                                   (Some e, st') \<Rightarrow> (Some (Threw i e), st')
                                 | (None, st') \<Rightarrow>
                                     (case wait_next env socket (length cs) i st' of
                                        Inl m \<Rightarrow> (Some (Threw i (Error m)), st')
                                      | Inr st'' \<Rightarrow> (None, st''))))))))"

function processLoop ::
  "env \<Rightarrow> bool \<Rightarrow> contact list \<Rightarrow> string option \<Rightarrow> string option \<Rightarrow> nat \<Rightarrow>
   session \<times> event list \<Rightarrow> outcome \<times> session \<times> event list" where
  "processLoop env socket cs messageTemplate mediaPath i st =
     (if i < length cs
      then (case loop_body env socket cs messageTemplate mediaPath i st of
              (Some out, st') \<Rightarrow> (out, st')
            | (None, st') \<Rightarrow> processLoop env socket cs messageTemplate mediaPath (Suc i) st')
      else (Completed, st))"
  by pat_completeness auto
termination
  by (relation "measure (\<lambda>(env, socket, cs, messageTemplate, mediaPath, i, st). length cs - i)") auto

text \<open>
  The statements after the loop, lines 696-700, with \<open>n\<close> for \<^verbatim>\<open>contacts.length\<close>: the
  flag is cleared, the session data is saved, \<^verbatim>\<open>bulk_complete\<close> is emitted with the job,
  and the last log line reads the job's counters, which throws a TypeError when there
  is no job. They are not reached when the loop was left by a throw.
\<close>

definition finish ::
  "env \<Rightarrow> bool \<Rightarrow> nat \<Rightarrow> outcome \<times> session \<times> event list \<Rightarrow> outcome \<times> session \<times> event list" where
  "finish env socket n r =
     (let (out, session, evs) = r in
      case out of
        Threw i e \<Rightarrow> (out, session, evs)
      | _ \<Rightarrow>
          (let session' = session\<lparr>sendingInProgress := False\<rparr>
           in case saveSessionData env n of
                Inl m \<Rightarrow> (Threw n (Error m), session', evs)
              | Inr u \<Rightarrow>
                  (case socket_emit env socket n EmitComplete
                          (BulkComplete (currentJob session')) evs of
                     Inl m \<Rightarrow> (Threw n (Error m), session', evs)
                   | Inr evs' \<Rightarrow>
                       (case currentJob session' of
                          None \<Rightarrow> (Threw n TypeError, session', evs')
                        | Some job \<Rightarrow>
                            (case log env n LogComplete of
                               Inl m \<Rightarrow> (Threw n (Error m), session', evs')
                             | Inr u \<Rightarrow> (out, session', evs'))))))"

text \<open>
  \<^verbatim>\<open>processBulkSend(sessionId, contacts, messageTemplate, mediaPath)\<close>, lines 626-701,
  for a session that exists; \<open>socket\<close> says whether the session's socket was found. The
  result is how the function ended, the session and the events emitted.
\<close>

definition processBulkSend ::
  "env \<Rightarrow> bool \<Rightarrow> contact list \<Rightarrow> string option \<Rightarrow> string option \<Rightarrow> session \<Rightarrow>
   outcome \<times> session \<times> event list" where
  "processBulkSend env socket cs messageTemplate mediaPath session =
     (case log env 0 LogStart of
        Inl m \<Rightarrow> (Threw 0 (Error m), session, [])
      | Inr u \<Rightarrow>
          finish env socket (length cs)
            (processLoop env socket cs messageTemplate mediaPath 0 (session, [])))"

text \<open>The recipients that were passed to the \<^verbatim>\<open>try\<close> before the function ended.\<close>

fun attempted :: "nat \<Rightarrow> outcome \<Rightarrow> nat" where
  "attempted n Completed = n"
| "attempted n (Stopped k) = k"
| "attempted n (QuotaExhausted k) = k"
| "attempted n (Threw k e) = k"

section \<open>Sample runs\<close>

text \<open>
  A connected session with the default settings, and an environment in which the date
  stays the same, nobody asks to stop, no other code touches the session, every call
  succeeds, every number is registered, every draw gives the lower bound and no pause
  is added.
\<close>

definition sample_session :: session where
  "sample_session =
     \<lparr>isReady = True, settings = DEFAULT_SETTINGS,
      dailyCounter = \<lparr>date = ''Mon Nov 03 2025'', count = 0\<rparr>,
      sessionCounter = 0, sendingInProgress = False, currentJob = None\<rparr>"

definition sample_env :: env where
  "sample_env =
     \<lparr>today_at = (\<lambda>i. ''Mon Nov 03 2025''),
      stop_request = (\<lambda>i w. False),
      others = (\<lambda>i w session. session),
      io_error = (\<lambda>i site. None),
      rest_draw = (\<lambda>i n m. m),
      delay_draw = (\<lambda>i n m. m),
      pause_chance = (\<lambda>i. False),
      pause_draw = (\<lambda>i. 0),
      isRegisteredUser = (\<lambda>i ph. Inr True),
      typing_calls = (\<lambda>i ph. Inr ()),
      existsSync = (\<lambda>i path. False),
      fromFilePath = (\<lambda>i path. Inr path),
      sendMessage = (\<lambda>i ph p. Inr ())\<rparr>"

definition sample_contacts :: "contact list" where
  "sample_contacts =
     [\<lparr>phone = Some ''0811'', name = Some ''Ani''\<rparr>,
      \<lparr>phone = Some ''0812'', name = Some ''Budi''\<rparr>,
      \<lparr>phone = Some ''0813'', name = None\<rparr>]"

definition sample_body :: bulk_body where
  "sample_body =
     \<lparr>b_contacts = Some sample_contacts, b_message = Some ''Hi {nama}'', b_mediaPath = None\<rparr>"

text \<open>The session as an accepted request for the sample contacts leaves it.\<close>

definition running_session :: session where
  "running_session =
     sample_session\<lparr>sendingInProgress := True,
                    currentJob := Some \<lparr>total_n = 3, sent = 0, failed = 0, results = []\<rparr>\<rparr>"

text \<open>A settings request that carries only \<^verbatim>\<open>batchSize: 0\<close>.\<close>

definition zero_batch_body :: settings_body where
  "zero_batch_body =
     \<lparr>b_minDelay = None, b_maxDelay = None, b_batchSize = Some 0, b_batchRestMin = None,
      b_batchRestMax = None, b_warmupMessages = None, b_warmupDelayMin = None,
      b_warmupDelayMax = None, b_dailyLimit = None, b_simulateTyping = None,
      b_addRandomPause = None\<rparr>"

text \<open>An environment in which every typing simulation fails.\<close>

definition typing_fails_env :: env where
  "typing_fails_env = sample_env\<lparr>typing_calls := (\<lambda>i ph. Inl ''typing failed'')\<rparr>"

text \<open>
  An environment in which the registration check of the first number throws, the second
  number is not registered, sending to the third times out and every typing simulation
  fails; and a fourth contact for it, to whom a message is sent.
\<close>

definition flaky_env :: env where
  "flaky_env =
     sample_env\<lparr>isRegisteredUser :=
                  (\<lambda>i ph. if i = 0 then Inl ''Evaluation failed'' else Inr (i \<noteq> 1)),
                typing_calls := (\<lambda>i ph. Inl ''typing failed''),
                sendMessage := (\<lambda>i ph p. if i = 2 then Inl ''timeout'' else Inr ())\<rparr>"

definition four_contacts :: "contact list" where
  "four_contacts = sample_contacts @ [\<lparr>phone = Some ''0814'', name = Some ''Eka''\<rparr>]"

definition four_session :: session where
  "four_session =
     sample_session\<lparr>sendingInProgress := True,
                    currentJob := Some \<lparr>total_n = 4, sent = 0, failed = 0, results = []\<rparr>\<rparr>"

text \<open>
  A batch size of 1, and an environment in which the stop handler runs during the batch
  rest before the second recipient (index 1).
\<close>

definition batch_of_one_session :: session where
  "batch_of_one_session = running_session\<lparr>settings := DEFAULT_SETTINGS\<lparr>batchSize := 1\<rparr>\<rparr>"

definition stop_in_rest_env :: env where
  "stop_in_rest_env = sample_env\<lparr>stop_request := (\<lambda>i w. i = 1 \<and> w = BatchRestWait)\<rparr>"

text \<open>
  The fixtures of the end-to-end scenarios: a second number that is not registered, a
  daily limit of 1, and a stop request during the wait after the first recipient.
\<close>

definition unregistered_second_env :: env where
  "unregistered_second_env = sample_env\<lparr>isRegisteredUser := (\<lambda>i ph. Inr (i \<noteq> 1))\<rparr>"

definition daily_limit_one_session :: session where
  "daily_limit_one_session = running_session\<lparr>settings := DEFAULT_SETTINGS\<lparr>dailyLimit := 1\<rparr>\<rparr>"

definition stop_in_delay_env :: env where
  "stop_in_delay_env = sample_env\<lparr>stop_request := (\<lambda>i w. i = 0 \<and> w = DelayWait)\<rparr>"

text \<open>
  A second start request. During the wait after the first recipient of the sample run
  the stop handler runs, and then the start handler receives a request for two other
  contacts: \<open>second_run_begins\<close> is what the session becomes by that request and by
  the first pass of the call of \<^verbatim>\<open>processBulkSend\<close> that the handler makes when it
  accepts, up to the wait after its first recipient. \<open>second_run_ends\<close> is what the
  session becomes by the rest of that call, which runs during the wait after the second
  recipient of the sample run.
\<close>

definition second_contacts :: "contact list" where
  "second_contacts =
     [\<lparr>phone = Some ''0821'', name = Some ''Citra''\<rparr>,
      \<lparr>phone = Some ''0822'', name = Some ''Dewi''\<rparr>]"

definition second_body :: bulk_body where
  "second_body =
     \<lparr>b_contacts = Some second_contacts, b_message = Some ''Hi {nama}'', b_mediaPath = None\<rparr>"

definition second_run_begins :: "session \<Rightarrow> session" where
  "second_run_begins session =
     (case send_bulk (Some session) second_body of
        (SendingStarted n, Some started) \<Rightarrow>
          fst (snd (loop_body sample_env True second_contacts
                      (b_message second_body) (b_mediaPath second_body) 0 (started, [])))
      | (response, found) \<Rightarrow> session)"

definition second_run_ends :: "session \<Rightarrow> session" where
  "second_run_ends session =
     fst (snd (finish sample_env True (length second_contacts)
                 (processLoop sample_env True second_contacts
                    (b_message second_body) (b_mediaPath second_body) 1 (session, []))))"

definition second_start_env :: env where
  "second_start_env =
     sample_env\<lparr>stop_request := (\<lambda>i w. i = 0 \<and> w = DelayWait),
                others := (\<lambda>i w. if i = 0 \<and> w = DelayWait then second_run_begins
                                  else if i = 1 \<and> w = DelayWait then second_run_ends
                                  else (\<lambda>session. session))\<rparr>"

text \<open>An environment in which the log line of line 676 cannot be written for the first recipient.\<close>

definition log_fails_env :: env where
  "log_fails_env =
     sample_env\<lparr>io_error := (\<lambda>i site. if i = 0 \<and> site = LogSent then Some ''ENOSPC'' else None)\<rparr>"

text \<open>The kinds of events, for counting them in a run.\<close>

fun is_waiting :: "event \<Rightarrow> bool" where
  "is_waiting (Waiting d nxt n w) = True"
| "is_waiting ev = False"

fun is_batch_rest :: "event \<Rightarrow> bool" where
  "is_batch_rest (BatchRest d b) = True"
| "is_batch_rest ev = False"

fun is_limit_reached :: "event \<Rightarrow> bool" where
  "is_limit_reached (LimitReached l) = True"
| "is_limit_reached ev = False"

text \<open>The batch-of-one session after the first recipient was sent to.\<close>

definition after_first_session :: session where
  "after_first_session =
     batch_of_one_session
       \<lparr>dailyCounter := \<lparr>date = ''Mon Nov 03 2025'', count = 1\<rparr>,
        sessionCounter := 1,
        currentJob := Some \<lparr>total_n = 3, sent = 1, failed = 0,
          results = [\<lparr>r_phone = Some ''0811'', r_name = Some ''Ani'',
                      status = Success, error = None\<rparr>]\<rparr>\<rparr>"

section \<open>What a pass records\<close>

text \<open>
  The entry that a pass of the loop appends for a contact, from what the calls of the
  \<^verbatim>\<open>try\<close> gave (lines 674 and 681).
\<close>

definition result_entry :: "contact \<Rightarrow> string + unit \<Rightarrow> result" where
  "result_entry contact sending =
     (case sending of
        Inr u \<Rightarrow> \<lparr>r_phone = phone contact, r_name = name contact, status = Success, error = None\<rparr>
      | Inl msg \<Rightarrow>
          \<lparr>r_phone = phone contact, r_name = name contact, status = Failed, error = Some msg\<rparr>)"

text \<open>
  The entry that the pass with index \<open>m\<close> appends when it reaches the \<^verbatim>\<open>try\<close>: the
  address and the personalised message of lines 654-655 are passed to the calls of the
  \<^verbatim>\<open>try\<close>. \<open>None\<close>: one of the two threw, and the pass appends nothing.
\<close>

definition attempt_entry ::
  "env \<Rightarrow> session \<Rightarrow> contact list \<Rightarrow> string option \<Rightarrow> string option \<Rightarrow> nat \<Rightarrow> result option" where
  "attempt_entry env session cs messageTemplate mediaPath m =
     (case formatPhoneNumber (phone (cs ! m)) of
        Inl e \<Rightarrow> None
      | Inr ph \<Rightarrow>
          (case replaceVariables messageTemplate (cs ! m) of
             Inl e \<Rightarrow> None
           | Inr personalizedMessage \<Rightarrow>
               Some (result_entry (cs ! m)
                       (try_send env session m ph personalizedMessage mediaPath))))"

section \<open>The helper functions\<close>

subsection \<open>Daily quota\<close>

lemma checkDailyLimit_same_day:
  "date (dailyCounter s) = today \<Longrightarrow> ((snd \<circ> checkDailyLimit today) ^^ n) s = s"
  by (induction n) (simp_all add: checkDailyLimit_def)

text \<open>
  Claim C4. A call of the daily-quota check on a day other than the stored one sets the
  daily counter to that day with count 0 and the session counter to 0, and a call on the
  stored day changes nothing; the answer is whether the count, after that, is below the
  daily limit. So with the count at the limit on the stored day every further call of
  that day answers false (\<open>n\<close> earlier calls leave the session as it is), and the first
  call of another day answers true when the limit is positive.
\<close>

theorem checkDailyLimit_rolls_and_gates:
  assumes "checkDailyLimit today s = (ok, s')"
  shows "(date (dailyCounter s) \<noteq> today \<longrightarrow>
            s' = s\<lparr>dailyCounter := \<lparr>date = today, count = 0\<rparr>, sessionCounter := 0\<rparr>)
       \<and> (date (dailyCounter s) = today \<longrightarrow> s' = s)
       \<and> (ok \<longleftrightarrow> count (dailyCounter s') < dailyLimit (settings s'))
       \<and> (date (dailyCounter s) = today \<and> count (dailyCounter s) = dailyLimit (settings s) \<longrightarrow>
            (\<forall>n. ((snd \<circ> checkDailyLimit today) ^^ n) s = s
                \<and> \<not> fst (checkDailyLimit today (((snd \<circ> checkDailyLimit today) ^^ n) s))))
       \<and> (date (dailyCounter s) \<noteq> today \<and> 0 < dailyLimit (settings s) \<longrightarrow> ok)"
  using assms checkDailyLimit_same_day [of s today]
  by (auto simp: checkDailyLimit_def Let_def)

theorem checkDailyLimit_rolls_and_gates_witness:
  "checkDailyLimit ''Mon Nov 03 2025''
     (sample_session\<lparr>dailyCounter := \<lparr>date = ''Sun Nov 02 2025'', count = 300\<rparr>,
                     sessionCounter := 7\<rparr>)
     = (True, sample_session)
   \<and> \<not> fst (checkDailyLimit ''Mon Nov 03 2025''
        (((snd \<circ> checkDailyLimit ''Mon Nov 03 2025'') ^^ 3)
           (sample_session\<lparr>dailyCounter := \<lparr>date = ''Mon Nov 03 2025'', count = 300\<rparr>\<rparr>)))"
proof -
  let ?today = "''Mon Nov 03 2025''"
  let ?old = "sample_session\<lparr>dailyCounter := \<lparr>date = ''Sun Nov 02 2025'', count = 300\<rparr>,
                             sessionCounter := 7\<rparr>"
  let ?full = "sample_session\<lparr>dailyCounter := \<lparr>date = ?today, count = 300\<rparr>\<rparr>"
  obtain ok s' where run: "checkDailyLimit ?today ?old = (ok, s')"
    by (cases "checkDailyLimit ?today ?old")
  have "ok" and "s' = sample_session"
    using checkDailyLimit_rolls_and_gates [OF run]
    by (simp_all add: sample_session_def DEFAULT_SETTINGS_def)
  with run have first: "checkDailyLimit ?today ?old = (True, sample_session)"
    by simp
  obtain ok2 s2 where run2: "checkDailyLimit ?today ?full = (ok2, s2)"
    by (cases "checkDailyLimit ?today ?full")
  have full: "date (dailyCounter ?full) = ?today
      \<and> count (dailyCounter ?full) = dailyLimit (settings ?full)"
    by (simp add: sample_session_def DEFAULT_SETTINGS_def)
  have "\<not> fst (checkDailyLimit ?today (((snd \<circ> checkDailyLimit ?today) ^^ 3) ?full))"
    using checkDailyLimit_rolls_and_gates [OF run2] full by blast
  with first show ?thesis by blast
qed

subsection \<open>Delay policy\<close>

text \<open>
  The delay is the drawn number of seconds in milliseconds, with the bounds of the
  warm-up while the session counter is below \<^verbatim>\<open>warmupMessages\<close> and the ordinary bounds
  afterwards; the pause adds the second drawn number plus 10 when the option is on and
  the chance falls. Where the drawn number lies is a matter of the floating-point
  expression \<^verbatim>\<open>Math.floor(Math.random() * (maxDelay - minDelay + 1) + minDelay)\<close>,
  which is not evaluated here.
\<close>

lemma getHumanizedDelay_value:
  "getHumanizedDelay s draw pause extra =
     1000 * ((if sessionCounter s < warmupMessages (settings s)
              then draw (warmupDelayMax (settings s) - warmupDelayMin (settings s) + 1)
                     (warmupDelayMin (settings s))
              else draw (maxDelay (settings s) - minDelay (settings s) + 1)
                     (minDelay (settings s)))
             + (if addRandomPause (settings s) \<and> pause then extra + 10 else 0))"
  by (simp add: getHumanizedDelay_def Let_def)

subsection \<open>Batch scheduler\<close>

text \<open>
  Claim C6. For a positive batch size \<open>b\<close> and a queue index \<open>i\<close> (zero-based, so a
  natural number) the batch-rest predicate is true exactly when \<open>i > 0\<close> and
  \<open>i mod b = 0\<close>; at index 0 it is false whatever the settings are.
\<close>

theorem needsBatchRest_iff:
  "(0 < batchSize (settings s) \<longrightarrow>
      needsBatchRest s i = (0 < i \<and> int i mod batchSize (settings s) = 0))
   \<and> \<not> needsBatchRest s' 0"
  by (auto simp: needsBatchRest_def js_rem_def sgn_if)

theorem needsBatchRest_iff_witness:
  "0 < batchSize (settings sample_session)
   \<and> needsBatchRest sample_session 50
   \<and> \<not> needsBatchRest sample_session 30
   \<and> \<not> needsBatchRest (sample_session\<lparr>settings := DEFAULT_SETTINGS\<lparr>batchSize := 0\<rparr>\<rparr>) 0"
proof -
  let ?z = "sample_session\<lparr>settings := DEFAULT_SETTINGS\<lparr>batchSize := 0\<rparr>\<rparr>"
  have pos: "0 < batchSize (settings sample_session)"
    and bs: "batchSize (settings sample_session) = 25"
    by (simp_all add: sample_session_def DEFAULT_SETTINGS_def)
  have "needsBatchRest sample_session 50
          = (0 < (50::nat) \<and> int 50 mod batchSize (settings sample_session) = 0)"
    by (rule needsBatchRest_iff [of sample_session 50 ?z, THEN conjunct1, rule_format, OF pos])
  then have a: "needsBatchRest sample_session 50"
    by (simp add: bs)
  have "needsBatchRest sample_session 30
          = (0 < (30::nat) \<and> int 30 mod batchSize (settings sample_session) = 0)"
    by (rule needsBatchRest_iff [of sample_session 30 ?z, THEN conjunct1, rule_format, OF pos])
  then have b: "\<not> needsBatchRest sample_session 30"
    by (simp add: bs)
  have c: "\<not> needsBatchRest ?z 0"
    using needsBatchRest_iff [of sample_session 0 ?z] by (rule conjunct2)
  from pos a b c show ?thesis by blast
qed

subsection \<open>Personalisation\<close>

lemma replace_all_no_match:
  "\<not> occurs pat s \<Longrightarrow> replace_all pat repl pre s = s"
  by (induction s arbitrary: pre) simp_all

text \<open>
  Claim C9. When substituting the variables of a template for a contact gives a text
  that holds no placeholder (none of the four patterns matches anywhere in it),
  substituting again for the same contact returns that text unchanged.
\<close>

theorem replaceVariables_idempotent:
  assumes "replaceVariables (Some t) c = Inr u" and "\<not> has_placeholder u"
  shows "replaceVariables (Some u) c = Inr u"
  using assms(2) by (simp add: replaceVariables_def has_placeholder_def replace_all_no_match)

theorem replaceVariables_idempotent_witness:
  "replaceVariables (Some ''Hi {Name}, {NOMOR}!'') \<lparr>phone = Some ''0812'', name = Some ''Budi''\<rparr>
     = Inr ''Hi Budi, 0812!''
   \<and> \<not> has_placeholder ''Hi Budi, 0812!''
   \<and> replaceVariables (Some ''Hi Budi, 0812!'') \<lparr>phone = Some ''0812'', name = Some ''Budi''\<rparr>
     = Inr ''Hi Budi, 0812!''"
proof -
  have a: "replaceVariables (Some ''Hi {Name}, {NOMOR}!'')
             \<lparr>phone = Some ''0812'', name = Some ''Budi''\<rparr> = Inr ''Hi Budi, 0812!''"
    by code_simp
  have b: "\<not> has_placeholder ''Hi Budi, 0812!''"
    by code_simp
  from a b replaceVariables_idempotent [OF a b] show ?thesis by blast
qed

subsection \<open>Address normalisation\<close>

lemma not_digit_suffix: "filter is_digit ''@c.us'' = []" "\<not> is_digit CHR ''@''"
  by (simp_all add: is_digit_def)

lemma digits_prefix: "is_digit CHR ''6''" "is_digit CHR ''2''"
  by (simp_all add: is_digit_def)

text \<open>
  The address of a present phone: its digits, with a leading 0 replaced by 62, followed
  by the suffix. The test for an at sign never fails on digits.
\<close>

lemma formatPhoneNumber_Some:
  "formatPhoneNumber (Some s) =
     Inr ((if take 1 (filter is_digit s) = ''0'' then ''62'' @ drop 1 (filter is_digit s)
           else filter is_digit s) @ ''@c.us'')"
proof -
  have "CHR ''@'' \<notin> set (filter is_digit s)"
    using not_digit_suffix(2) by auto
  moreover have "CHR ''@'' \<notin> set (drop 1 (filter is_digit s))"
    using not_digit_suffix(2) by (auto dest: in_set_dropD)
  ultimately show ?thesis
    by (simp add: formatPhoneNumber_def Let_def)
qed

lemma filter_digits_prefixed:
  assumes "filter is_digit d = d"
  shows "filter is_digit (if take 1 d = ''0'' then ''62'' @ drop 1 d else d)
           = (if take 1 d = ''0'' then ''62'' @ drop 1 d else d)"
proof -
  have "filter is_digit (drop 1 d) = drop 1 d"
    using assms by (metis filter_id_conv in_set_dropD)
  with assms digits_prefix show ?thesis
    by simp
qed

text \<open>
  Claim C10. Normalising a phone number twice gives what normalising it once gives: for
  every text \<open>s\<close> the call returns an address \<open>a\<close>, and the call on \<open>a\<close> returns
  \<open>a\<close> again.
\<close>

theorem formatPhoneNumber_idempotent:
  "\<exists>a. formatPhoneNumber (Some s) = Inr a \<and> formatPhoneNumber (Some a) = Inr a"
proof -
  let ?d = "filter is_digit s"
  let ?g = "if take 1 ?d = ''0'' then ''62'' @ drop 1 ?d else ?d"
  have digits: "filter is_digit (?g @ ''@c.us'') = ?g"
    using filter_digits_prefixed [of ?d] not_digit_suffix(1)
    by (simp del: filter.simps)
  have again: "(if take 1 ?g = ''0'' then ''62'' @ drop 1 ?g else ?g) = ?g"
    by simp
  have "formatPhoneNumber (Some (?g @ ''@c.us'')) = Inr (?g @ ''@c.us'')"
    unfolding formatPhoneNumber_Some [of "?g @ ''@c.us''"] digits again ..
  then show ?thesis
    unfolding formatPhoneNumber_Some [of s] by blast
qed

lemma formatPhoneNumber_example:
  "formatPhoneNumber (Some ''0812-3456 789'') = Inr ''628123456789@c.us''
   \<and> formatPhoneNumber (Some ''628123456789@c.us'') = Inr ''628123456789@c.us''"
  by code_simp

section \<open>The handlers\<close>

subsection \<open>Start of a run\<close>




subsection \<open>Settings update\<close>




section \<open>The send loop\<close>

subsection \<open>The parts of one pass\<close>

lemma simulateTyping_fn_ignores_failure [simp]: "simulateTyping_fn env s i chatId = Inr ()"
  by (simp add: simulateTyping_fn_def split: sum.splits)

lemma try_send_any_session: "try_send env s i ph msg media = try_send env s' i ph msg media"
  by (simp add: try_send_def split: sum.splits)

lemma try_send_any_typing:
  "try_send (env\<lparr>typing_calls := t\<rparr>) s i ph msg media = try_send env s i ph msg media"
  by (auto simp: try_send_def split: sum.splits option.splits)

lemma attempt_entry_any_session:
  "attempt_entry env s cs tmpl media m = attempt_entry env s' cs tmpl media m"
  by (simp add: attempt_entry_def try_send_any_session [of env s _ _ _ media s']
      split: sum.splits)

text \<open>
  Where \<^verbatim>\<open>log\<close>, \<^verbatim>\<open>socket.emit\<close> and \<^verbatim>\<open>saveSessionData\<close> do not throw, the steps of a
  pass always go on.
\<close>

lemma log_quiet: "io_error env i site = None \<Longrightarrow> log env i site = Inr ()"
  by (simp add: log_def)

lemma tell_quiet:
  "io_error env i a = None \<Longrightarrow> io_error env i b = None
     \<Longrightarrow> tell env socket i a b ev evs = Inr (emit socket ev evs)"
  by (simp add: tell_def log_def socket_emit_def emit_def)

lemma checkDailyLimit_frame [simp]:
  "currentJob (snd (checkDailyLimit today s)) = currentJob s"
  "settings (snd (checkDailyLimit today s)) = settings s"
  "sendingInProgress (snd (checkDailyLimit today s)) = sendingInProgress s"
  by (simp_all add: checkDailyLimit_def)

lemma checkDailyLimit_answer:
  "fst (checkDailyLimit today s)
     = (count (dailyCounter (snd (checkDailyLimit today s))) < dailyLimit (settings s))"
  by (simp add: checkDailyLimit_def)

text \<open>
  What a wait leaves of the session, where the other code that ran during it did not
  replace the job, or did not touch the flag.
\<close>

lemma resume_job:
  "\<forall>x. currentJob (others env i w x) = currentJob x
     \<Longrightarrow> currentJob (resume env i w s) = currentJob s"
  by (simp add: resume_def)

lemma resume_flag:
  "\<forall>x. sendingInProgress (others env i w x) = sendingInProgress x
     \<Longrightarrow> sendingInProgress (resume env i w s) = (sendingInProgress s \<and> \<not> stop_request env i w)"
  by (simp add: resume_def)

lemma needsBatchRest_settings:
  "settings a = settings b \<Longrightarrow> needsBatchRest a i = needsBatchRest b i"
  by (simp add: needsBatchRest_def)

lemma getBatchRestDuration_settings:
  "settings a = settings b \<Longrightarrow> getBatchRestDuration a r = getBatchRestDuration b r"
  by (simp add: getBatchRestDuration_def)

lemma batch_rest_quiet:
  assumes "\<forall>site. io_error env i site = None"
  shows "batch_rest env socket i (s, evs) =
     Inr (if needsBatchRest s i then resume env i BatchRestWait s else s,
          if needsBatchRest s i
          then emit socket (BatchRest (getBatchRestDuration s (rest_draw env i) div 1000)
                             (int i div batchSize (settings s))) evs
          else evs)"
  using assms by (simp add: batch_rest_def Let_def tell_quiet)

lemma wait_next_quiet:
  assumes "\<forall>site. io_error env i site = None"
  shows "wait_next env socket n i (s, evs) =
     Inr (if int i < int n - 1 \<and> sendingInProgress s then resume env i DelayWait s else s,
          if int i < int n - 1 \<and> sendingInProgress s
          then emit socket
                 (Waiting (getHumanizedDelay s (delay_draw env i) (pause_chance env i)
                             (pause_draw env i) div 1000)
                    (i + 2) n (sessionCounter s \<le> warmupMessages (settings s))) evs
          else evs)"
  using assms by (simp add: wait_next_def Let_def tell_quiet)

lemma record_outcome_job:
  assumes "\<forall>site. io_error env i site = None" and "currentJob s = Some j"
  shows "\<exists>s' evs' j'. record_outcome env socket i c sending (s, evs) = (None, s', evs')
      \<and> currentJob s' = Some j'
      \<and> results j' = results j @ [result_entry c sending]
      \<and> total_n j' = total_n j
      \<and> sent j' + failed j' = Suc (sent j + failed j)
      \<and> sendingInProgress s' = sendingInProgress s
      \<and> evs' = emit socket
           (case sending of Inr u \<Rightarrow> MessageSent (result_entry c sending) j'
                          | Inl m \<Rightarrow> MessageFailed (result_entry c sending) j') evs"
  using assms
  by (cases sending)
    (simp_all add: record_outcome_def catch_block_def result_entry_def Let_def tell_quiet)

lemma record_outcome_no_job:
  assumes "currentJob s = None"
  shows "record_outcome env socket i c sending (s, evs) = (Some TypeError, s, evs)"
  using assms by (cases sending) (simp_all add: record_outcome_def catch_block_def)

lemma loop_body_quiet:
  assumes "\<forall>site. io_error env i site = None"
  shows "loop_body env socket cs tmpl media i (s, evs) =
     (if \<not> sendingInProgress s then (Some (Stopped i), s, evs)
      else if \<not> fst (checkDailyLimit (today_at env i) s)
      then (Some (QuotaExhausted i), snd (checkDailyLimit (today_at env i) s),
            emit socket (LimitReached (dailyLimit (settings s))) evs)
      else
        (let s1 = snd (checkDailyLimit (today_at env i) s);
             s2 = (if needsBatchRest s i then resume env i BatchRestWait s1 else s1);
             evs2 = (if needsBatchRest s i
                     then emit socket
                            (BatchRest (getBatchRestDuration s (rest_draw env i) div 1000)
                               (int i div batchSize (settings s))) evs
                     else evs)
         in case formatPhoneNumber (phone (cs ! i)) of
              Inl e \<Rightarrow> (Some (Threw i e), s2, evs2)
            | Inr ph \<Rightarrow>
                (case replaceVariables tmpl (cs ! i) of
                   Inl e \<Rightarrow> (Some (Threw i e), s2, evs2)
                 | Inr msg \<Rightarrow>
                     (let ro = record_outcome env socket i (cs ! i) (try_send env s2 i ph msg media)
                                 (resume env i TransportCalls s2, evs2);
                          s4 = fst (snd ro); evs4 = snd (snd ro)
                      in case fst ro of
                           Some e \<Rightarrow> (Some (Threw i e), s4, evs4)
                         | None \<Rightarrow>
                             (None,
                              if int i < int (length cs) - 1 \<and> sendingInProgress s4
                              then resume env i DelayWait s4 else s4,
                              if int i < int (length cs) - 1 \<and> sendingInProgress s4
                              then emit socket
                                     (Waiting (getHumanizedDelay s4 (delay_draw env i)
                                                 (pause_chance env i) (pause_draw env i) div 1000)
                                        (i + 2) (length cs)
                                        (sessionCounter s4 \<le> warmupMessages (settings s4))) evs4
                              else evs4)))))"
proof -
  let ?s1 = "snd (checkDailyLimit (today_at env i) s)"
  have rest: "needsBatchRest ?s1 i = needsBatchRest s i"
    "getBatchRestDuration ?s1 = getBatchRestDuration s"
    by (simp_all add: needsBatchRest_def getBatchRestDuration_def fun_eq_iff)
  have pair: "(case p of (Some e, st') \<Rightarrow> f e st' | (None, st') \<Rightarrow> g st')
      = (case fst p of Some e \<Rightarrow> f e (snd p) | None \<Rightarrow> g (snd p))" for p f g
    by (cases p) (simp split: option.splits)
  show ?thesis
    using assms
    by (simp add: loop_body_def Let_def case_prod_beta log_quiet tell_quiet batch_rest_quiet
        wait_next_quiet [of env i socket "length cs" "fst st" "snd st" for st, simplified] rest pair
        split del: if_split cong: sum.case_cong option.case_cong if_cong)
qed

lemma loop_body_break:
  assumes "loop_body env socket cs tmpl media i (s, evs) = (Some out, s', evs')"
    and quiet: "\<forall>site. io_error env i site = None"
    and kept: "\<forall>w x. currentJob (others env i w x) = currentJob x"
  shows "currentJob s' = currentJob s
     \<and> ((out = Stopped i \<and> \<not> sendingInProgress s \<and> \<not> sendingInProgress s')
        \<or> (out = QuotaExhausted i \<and> sendingInProgress s
             \<and> \<not> count (dailyCounter s') < dailyLimit (settings s'))
        \<or> (\<exists>e. out = Threw i e \<and> attempt_entry env s cs tmpl media i = None)
        \<or> (\<exists>e. out = Threw i e \<and> currentJob s = None))"
proof -
  let ?s1 = "snd (checkDailyLimit (today_at env i) s)"
  let ?s2 = "if needsBatchRest s i then resume env i BatchRestWait ?s1 else ?s1"
  let ?evs2 = "if needsBatchRest s i
      then emit socket (BatchRest (getBatchRestDuration s (rest_draw env i) div 1000)
                          (int i div batchSize (settings s))) evs
      else evs"
  let ?s3 = "resume env i TransportCalls ?s2"
  have job2: "currentJob ?s2 = currentJob s"
    using kept by (simp add: resume_job)
  have job3: "currentJob ?s3 = currentJob s"
    using kept job2 by (simp add: resume_job)
  note body = assms(1) [unfolded loop_body_quiet [OF quiet]]
  show ?thesis
  proof (cases "sendingInProgress s")
    case False
    with body show ?thesis by simp
  next
    case running: True
    show ?thesis
    proof (cases "fst (checkDailyLimit (today_at env i) s)")
      case False
      with body running show ?thesis
        by (auto simp: checkDailyLimit_answer)
    next
      case allowed: True
      show ?thesis
      proof (cases "formatPhoneNumber (phone (cs ! i))")
        case (Inl e)
        with body running allowed job2 show ?thesis
          by (auto simp: attempt_entry_def Let_def)
      next
        case ph: (Inr ph)
        show ?thesis
        proof (cases "replaceVariables tmpl (cs ! i)")
          case (Inl e)
          with body running allowed job2 ph show ?thesis
            by (auto simp: attempt_entry_def Let_def)
        next
          case msg: (Inr msg)
          show ?thesis
          proof (cases "currentJob s")
            case None
            then have "currentJob ?s3 = None" using job3 by simp
            from record_outcome_no_job [OF this, of env socket i "cs ! i"
                "try_send env ?s2 i ph msg media" ?evs2]
            have "s' = ?s3"
              using body running allowed ph msg by (simp add: Let_def)
            with body running allowed ph msg None job3 show ?thesis
              by (auto simp: Let_def split: option.splits)
          next
            case (Some j)
            then have "currentJob ?s3 = Some j"
              using job3 by simp
            from record_outcome_job [OF quiet this, of socket "cs ! i"
                "try_send env ?s2 i ph msg media" ?evs2]
            obtain st' where "record_outcome env socket i (cs ! i) (try_send env ?s2 i ph msg media)
                (?s3, ?evs2) = (None, st')"
              by blast
            with body running allowed ph msg show ?thesis
              by (simp add: Let_def)
          qed
        qed
      qed
    qed
  qed
qed

lemma loop_body_attempt:
  assumes "loop_body env socket cs tmpl media i (s, evs) = (None, s', evs')"
    and "currentJob s = Some j"
    and quiet: "\<forall>site. io_error env i site = None"
    and kept: "\<forall>w x. currentJob (others env i w x) = currentJob x"
    and flag: "\<forall>w x. sendingInProgress (others env i w x) = sendingInProgress x"
  shows "\<exists>j' r. attempt_entry env s cs tmpl media i = Some r
      \<and> currentJob s' = Some j'
      \<and> results j' = results j @ [r]
      \<and> total_n j' = total_n j
      \<and> sent j' + failed j' = Suc (sent j + failed j)
      \<and> sendingInProgress s
      \<and> (sendingInProgress s' \<or> (\<exists>w. stop_request env i w))"
proof -
  let ?s1 = "snd (checkDailyLimit (today_at env i) s)"
  let ?s2 = "if needsBatchRest s i then resume env i BatchRestWait ?s1 else ?s1"
  let ?evs2 = "if needsBatchRest s i
      then emit socket (BatchRest (getBatchRestDuration s (rest_draw env i) div 1000)
                          (int i div batchSize (settings s))) evs
      else evs"
  let ?s3 = "resume env i TransportCalls ?s2"
  note body = assms(1) [unfolded loop_body_quiet [OF quiet]]
  have running: "sendingInProgress s"
    using body by (auto split: if_splits)
  have allowed: "fst (checkDailyLimit (today_at env i) s)"
    using body running by (auto split: if_splits)
  obtain ph where ph: "formatPhoneNumber (phone (cs ! i)) = Inr ph"
    using body running allowed
    by (cases "formatPhoneNumber (phone (cs ! i))") (auto simp: Let_def)
  obtain msg where msg: "replaceVariables tmpl (cs ! i) = Inr msg"
    using body running allowed ph
    by (cases "replaceVariables tmpl (cs ! i)") (auto simp: Let_def)
  let ?sending = "try_send env ?s2 i ph msg media"
  have job3: "currentJob ?s3 = Some j"
    using assms(2) kept by (simp add: resume_job)
  have flag3: "sendingInProgress ?s3 \<or> (\<exists>w. stop_request env i w)"
    using running flag by (auto simp: resume_flag)
  from record_outcome_job [OF quiet job3, of socket "cs ! i" ?sending ?evs2]
  obtain s4 evs4 j' where rec: "record_outcome env socket i (cs ! i) ?sending (?s3, ?evs2)
        = (None, s4, evs4)"
    and j': "currentJob s4 = Some j'" "results j' = results j @ [result_entry (cs ! i) ?sending]"
      "total_n j' = total_n j" "sent j' + failed j' = Suc (sent j + failed j)"
      "sendingInProgress s4 = sendingInProgress ?s3"
    by blast
  have s': "s' = (if int i < int (length cs) - 1 \<and> sendingInProgress s4
                  then resume env i DelayWait s4 else s4)"
    using body running allowed ph msg rec by (simp add: Let_def cong: if_cong)
  have entry: "attempt_entry env s cs tmpl media i = Some (result_entry (cs ! i) ?sending)"
    by (simp add: attempt_entry_def ph msg try_send_any_session [of env s i ph msg media ?s2])
  have job': "currentJob s' = Some j'"
    using j'(1) kept by (simp add: s' resume_job)
  have flag': "sendingInProgress s' \<or> (\<exists>w. stop_request env i w)"
    using flag3 j'(5) flag by (auto simp: s' resume_flag)
  from entry j' job' flag' running show ?thesis
    by simp
qed

subsection \<open>The loop\<close>

declare processLoop.simps [simp del]

lemma processLoop_stop: "\<not> i < length cs \<Longrightarrow> processLoop env socket cs tmpl media i st = (Completed, st)"
  by (subst processLoop.simps) simp

lemma processLoop_break:
  "i < length cs \<Longrightarrow> loop_body env socket cs tmpl media i st = (Some out, st')
     \<Longrightarrow> processLoop env socket cs tmpl media i st = (out, st')"
  by (subst processLoop.simps) simp

lemma processLoop_next:
  "i < length cs \<Longrightarrow> loop_body env socket cs tmpl media i st = (None, st')
     \<Longrightarrow> processLoop env socket cs tmpl media i st = processLoop env socket cs tmpl media (Suc i) st'"
  by (subst processLoop.simps) simp

lemma processLoop_accounting:
  assumes "processLoop env socket cs tmpl media i st = (out, s', evs')"
    and "currentJob (fst st) = Some j" and "i \<le> length cs"
    and "\<forall>i site. io_error env i site = None"
    and "\<forall>i w x. currentJob (others env i w x) = currentJob x"
    and "\<forall>i w x. sendingInProgress (others env i w x) = sendingInProgress x"
  shows "\<exists>j'. currentJob s' = Some j'
     \<and> total_n j' = total_n j
     \<and> i \<le> attempted (length cs) out \<and> attempted (length cs) out \<le> length cs
     \<and> sent j' + failed j' = sent j + failed j + (attempted (length cs) out - i)
     \<and> map Some (results j')
         = map Some (results j)
           @ map (attempt_entry env s0 cs tmpl media) [i..<attempted (length cs) out]"
  using assms
proof (induction env socket cs tmpl media i st arbitrary: j rule: processLoop.induct)
  case (1 env socket cs tmpl media i st)
  obtain s evs where st: "st = (s, evs)" by (cases st)
  have job: "currentJob s = Some j" using "1.prems"(2) st by simp
  have quiet: "\<forall>site. io_error env i site = None"
    and kept: "\<forall>w x. currentJob (others env i w x) = currentJob x"
    and flag: "\<forall>w x. sendingInProgress (others env i w x) = sendingInProgress x"
    using "1.prems"(4,5,6) by simp_all
  show ?case
  proof (cases "i < length cs")
    case False
    then have "i = length cs" using "1.prems"(3) by simp
    moreover have "out = Completed" "s' = s"
      using "1.prems"(1) False st by (simp_all add: processLoop_stop)
    ultimately show ?thesis using job st by simp
  next
    case inside: True
    obtain brk s1 evs1 where body: "loop_body env socket cs tmpl media i (s, evs) = (brk, s1, evs1)"
      by (cases "loop_body env socket cs tmpl media i (s, evs)")
    show ?thesis
    proof (cases brk)
      case (Some out1)
      have "out = out1" "s' = s1"
        using "1.prems"(1) processLoop_break [OF inside body [unfolded Some]] st by simp_all
      moreover have "attempted (length cs) out1 = i"
        using loop_body_break [OF body [unfolded Some] quiet kept] by auto
      moreover have "currentJob s1 = Some j"
        using loop_body_break [OF body [unfolded Some] quiet kept] job by simp
      ultimately show ?thesis using inside st by simp
    next
      case None
      from loop_body_attempt [OF body [unfolded None] job quiet kept flag]
      obtain j1 r where step: "attempt_entry env s cs tmpl media i = Some r"
        "currentJob s1 = Some j1" "results j1 = results j @ [r]" "total_n j1 = total_n j"
        "sent j1 + failed j1 = Suc (sent j + failed j)"
        by blast
      have rest: "processLoop env socket cs tmpl media (Suc i) (s1, evs1) = (out, s', evs')"
        using "1.prems"(1) processLoop_next [OF inside body [unfolded None]] st by simp
      have "\<exists>j'. currentJob s' = Some j'
           \<and> total_n j' = total_n j1
           \<and> Suc i \<le> attempted (length cs) out \<and> attempted (length cs) out \<le> length cs
           \<and> sent j' + failed j' = sent j1 + failed j1 + (attempted (length cs) out - Suc i)
           \<and> map Some (results j')
               = map Some (results j1)
                 @ map (attempt_entry env s0 cs tmpl media) [Suc i..<attempted (length cs) out]"
        using inside body None st rest step(2) "1.prems"(4,5,6)
        by (intro "1.IH" [of brk "(s1, evs1)" j1]) simp_all
      then obtain j' where j': "currentJob s' = Some j'" "total_n j' = total_n j1"
        "Suc i \<le> attempted (length cs) out" "attempted (length cs) out \<le> length cs"
        "sent j' + failed j' = sent j1 + failed j1 + (attempted (length cs) out - Suc i)"
        "map Some (results j')
           = map Some (results j1)
             @ map (attempt_entry env s0 cs tmpl media) [Suc i..<attempted (length cs) out]"
        by auto
      have upt: "[i..<attempted (length cs) out] = i # [Suc i..<attempted (length cs) out]"
        using j'(3) by (simp add: upt_conv_Cons)
      have entry: "attempt_entry env s0 cs tmpl media i = Some r"
        using step(1) attempt_entry_any_session [of env s0 cs tmpl media i s] by simp
      have "map Some (results j')
          = map Some (results j)
            @ map (attempt_entry env s0 cs tmpl media) [i..<attempted (length cs) out]"
        unfolding upt j'(6) step(3) using entry by simp
      moreover have "sent j' + failed j' = sent j + failed j + (attempted (length cs) out - i)"
        using j'(3,5) step(5) by simp
      ultimately show ?thesis
        using j' step st by simp
    qed
  qed
qed

lemma processLoop_outcome:
  assumes "processLoop env socket cs tmpl media i st = (out, s', evs')"
    and "currentJob (fst st) = Some j"
    and "\<forall>i site. io_error env i site = None"
    and "\<forall>i w x. currentJob (others env i w x) = currentJob x"
    and "\<forall>i w x. sendingInProgress (others env i w x) = sendingInProgress x"
  shows "out = Completed
     \<or> (\<exists>k<length cs. out = Stopped k \<and> \<not> sendingInProgress s'
           \<and> (\<not> sendingInProgress (fst st) \<or> (\<exists>m w. i \<le> m \<and> m < k \<and> stop_request env m w)))
     \<or> (\<exists>k<length cs. out = QuotaExhausted k
           \<and> \<not> count (dailyCounter s') < dailyLimit (settings s'))
     \<or> (\<exists>k<length cs. \<exists>e. out = Threw k e \<and> attempt_entry env s0 cs tmpl media k = None)"
  using assms
proof (induction env socket cs tmpl media i st arbitrary: j rule: processLoop.induct)
  case (1 env socket cs tmpl media i st)
  obtain s evs where st: "st = (s, evs)" by (cases st)
  have job: "currentJob s = Some j" using "1.prems"(2) st by simp
  have quiet: "\<forall>site. io_error env i site = None"
    and kept: "\<forall>w x. currentJob (others env i w x) = currentJob x"
    and flag: "\<forall>w x. sendingInProgress (others env i w x) = sendingInProgress x"
    using "1.prems"(3,4,5) by simp_all
  show ?case
  proof (cases "i < length cs")
    case False
    then show ?thesis
      using "1.prems"(1) by (simp add: processLoop_stop)
  next
    case inside: True
    obtain brk s1 evs1 where body: "loop_body env socket cs tmpl media i (s, evs) = (brk, s1, evs1)"
      by (cases "loop_body env socket cs tmpl media i (s, evs)")
    show ?thesis
    proof (cases brk)
      case (Some out1)
      have same: "out = out1" "s' = s1"
        using "1.prems"(1) processLoop_break [OF inside body [unfolded Some]] st by simp_all
      from loop_body_break [OF body [unfolded Some] quiet kept] job
      have "(out1 = Stopped i \<and> \<not> sendingInProgress s \<and> \<not> sendingInProgress s1)
          \<or> (out1 = QuotaExhausted i \<and> \<not> count (dailyCounter s1) < dailyLimit (settings s1))
          \<or> (\<exists>e. out1 = Threw i e \<and> attempt_entry env s0 cs tmpl media i = None)"
        using attempt_entry_any_session [of env s0 cs tmpl media i s] by auto
      then show ?thesis
        using same inside st by auto
    next
      case None
      from loop_body_attempt [OF body [unfolded None] job quiet kept flag]
      obtain j1 where step: "currentJob s1 = Some j1" "sendingInProgress s"
        "sendingInProgress s1 \<or> (\<exists>w. stop_request env i w)"
        by blast
      have rest: "processLoop env socket cs tmpl media (Suc i) (s1, evs1) = (out, s', evs')"
        using "1.prems"(1) processLoop_next [OF inside body [unfolded None]] st by simp
      have ih: "out = Completed
         \<or> (\<exists>k<length cs. out = Stopped k \<and> \<not> sendingInProgress s'
               \<and> (\<not> sendingInProgress (fst (s1, evs1))
                    \<or> (\<exists>m w. Suc i \<le> m \<and> m < k \<and> stop_request env m w)))
         \<or> (\<exists>k<length cs. out = QuotaExhausted k
               \<and> \<not> count (dailyCounter s') < dailyLimit (settings s'))
         \<or> (\<exists>k<length cs. \<exists>e. out = Threw k e \<and> attempt_entry env s0 cs tmpl media k = None)"
        using inside body None st rest step(1) "1.prems"(3,4,5)
        by (intro "1.IH" [of brk "(s1, evs1)" j1]) simp_all
      have later: "Suc i \<le> attempted (length cs) out"
        using processLoop_accounting [OF rest, of j1 s0] step(1) inside "1.prems"(3,4,5) by auto
      have "\<exists>m w. i \<le> m \<and> m < k \<and> stop_request env m w"
        if "out = Stopped k" "\<not> sendingInProgress s1 \<or> (\<exists>m w. Suc i \<le> m \<and> m < k \<and> stop_request env m w)"
        for k
      proof -
        from that(1) later have k: "i < k" by simp
        from that(2) show ?thesis
        proof
          assume "\<not> sendingInProgress s1"
          with step(3) obtain w where "stop_request env i w" by blast
          with k show ?thesis by blast
        next
          assume "\<exists>m w. Suc i \<le> m \<and> m < k \<and> stop_request env m w"
          then obtain m w where "Suc i \<le> m" "m < k" "stop_request env m w" by blast
          then have "i \<le> m \<and> m < k \<and> stop_request env m w" by simp
          then show ?thesis by blast
        qed
      qed
      with ih show ?thesis
        using st by fastforce
    qed
  qed
qed

text \<open>The typing calls do not change a run.\<close>

lemma parts_any_typing:
  "log (env\<lparr>typing_calls := t\<rparr>) = log env"
  "saveSessionData (env\<lparr>typing_calls := t\<rparr>) = saveSessionData env"
  "socket_emit (env\<lparr>typing_calls := t\<rparr>) = socket_emit env"
  "resume (env\<lparr>typing_calls := t\<rparr>) = resume env"
  "today_at (env\<lparr>typing_calls := t\<rparr>) = today_at env"
  by (simp_all add: fun_eq_iff log_def saveSessionData_def socket_emit_def resume_def)

lemma tell_any_typing: "tell (env\<lparr>typing_calls := t\<rparr>) = tell env"
  by (simp add: fun_eq_iff tell_def parts_any_typing cong: sum.case_cong)

lemma waits_any_typing:
  "batch_rest (env\<lparr>typing_calls := t\<rparr>) = batch_rest env"
  "wait_next (env\<lparr>typing_calls := t\<rparr>) = wait_next env"
  by (simp_all add: fun_eq_iff batch_rest_def wait_next_def parts_any_typing tell_any_typing
      cong: sum.case_cong if_cong)

lemma catch_block_any_typing: "catch_block (env\<lparr>typing_calls := t\<rparr>) = catch_block env"
  by (simp add: fun_eq_iff catch_block_def tell_any_typing cong: option.case_cong)

lemma record_outcome_any_typing: "record_outcome (env\<lparr>typing_calls := t\<rparr>) = record_outcome env"
  by (simp add: fun_eq_iff record_outcome_def tell_any_typing catch_block_any_typing
      cong: sum.case_cong option.case_cong)

lemma finish_any_typing: "finish (env\<lparr>typing_calls := t\<rparr>) = finish env"
  by (simp add: fun_eq_iff finish_def parts_any_typing
      cong: sum.case_cong option.case_cong outcome.case_cong)

lemmas steps_any_typing =
  waits_any_typing catch_block_any_typing record_outcome_any_typing finish_any_typing

lemma loop_body_any_typing:
  "loop_body (env\<lparr>typing_calls := t\<rparr>) socket cs tmpl media i st
     = loop_body env socket cs tmpl media i st"
  by (simp only: loop_body_def parts_any_typing tell_any_typing steps_any_typing
      try_send_any_typing)

lemma processLoop_any_typing:
  "processLoop (env\<lparr>typing_calls := t\<rparr>) socket cs tmpl media i st
     = processLoop env socket cs tmpl media i st"
proof (induction env socket cs tmpl media i st rule: processLoop.induct)
  case (1 env socket cs tmpl media i st)
  show ?case
  proof (cases "i < length cs")
    case False
    then show ?thesis by (simp add: processLoop_stop)
  next
    case inside: True
    obtain brk st1 where body: "loop_body env socket cs tmpl media i st = (brk, st1)"
      by (cases "loop_body env socket cs tmpl media i st")
    then have body': "loop_body (env\<lparr>typing_calls := t\<rparr>) socket cs tmpl media i st = (brk, st1)"
      by (simp add: loop_body_any_typing)
    show ?thesis
    proof (cases brk)
      case (Some out1)
      then show ?thesis
        using processLoop_break [OF inside body [unfolded Some]]
          processLoop_break [OF inside body' [unfolded Some]] by simp
    next
      case None
      have "processLoop (env\<lparr>typing_calls := t\<rparr>) socket cs tmpl media (Suc i) st1
          = processLoop env socket cs tmpl media (Suc i) st1"
        using inside body None by (intro "1.IH" [of brk st1]) simp_all
      then show ?thesis
        using processLoop_next [OF inside body [unfolded None]]
          processLoop_next [OF inside body' [unfolded None]] by simp
    qed
  qed
qed

lemma processBulkSend_any_typing:
  "processBulkSend (env\<lparr>typing_calls := t\<rparr>) socket cs tmpl media s
     = processBulkSend env socket cs tmpl media s"
  by (simp only: processBulkSend_def parts_any_typing steps_any_typing processLoop_any_typing)

lemma attempt_entry_present:
  assumes "phone (cs ! k) = Some p" and "tmpl = Some t"
  shows "attempt_entry env s cs tmpl media k \<noteq> None"
  using assms
  by (simp add: attempt_entry_def formatPhoneNumber_def replaceVariables_def Let_def)

lemma attempt_entry_contact:
  "attempt_entry env s cs tmpl media i = Some r \<Longrightarrow> r_phone r = phone (cs ! i) \<and> r_name r = name (cs ! i)"
  by (auto simp: attempt_entry_def result_entry_def split: sum.splits)

lemma attempt_entry_Some:
  assumes "attempt_entry env s cs tmpl media i = Some r"
  shows "\<exists>ph msg. formatPhoneNumber (phone (cs ! i)) = Inr ph
      \<and> replaceVariables tmpl (cs ! i) = Inr msg
      \<and> r = result_entry (cs ! i) (try_send env s i ph msg media)"
  using assms by (auto simp: attempt_entry_def split: sum.splits)

lemma emit_last: "socket \<Longrightarrow> emit socket ev evs \<noteq> [] \<and> last (emit socket ev evs) = ev"
  by (simp add: emit_def)

lemma finish_quiet:
  assumes "\<forall>site. io_error env n site = None"
    and "currentJob s1 = Some j1" and "\<forall>k e. out \<noteq> Threw k e"
  shows "finish env socket n (out, s1, evs1)
           = (out, s1\<lparr>sendingInProgress := False\<rparr>, emit socket (BulkComplete (Some j1)) evs1)"
  using assms
  by (cases out)
    (simp_all add: finish_def Let_def saveSessionData_def log_def socket_emit_def emit_def)

lemma processBulkSend_halts:
  assumes "\<forall>i site. io_error env i site = None"
    and "processLoop env socket cs tmpl media 0 (s, []) = (out, s1, evs1)"
    and "currentJob s1 = Some j1" and "\<forall>k e. out \<noteq> Threw k e"
  shows "processBulkSend env socket cs tmpl media s
           = (out, s1\<lparr>sendingInProgress := False\<rparr>, emit socket (BulkComplete (Some j1)) evs1)"
  using assms by (simp add: processBulkSend_def log_quiet finish_quiet)

lemma processBulkSend_throws:
  assumes "processBulkSend env socket cs tmpl media s = (out, s', evs)"
    and "\<forall>k e. out \<noteq> Threw k e"
  shows "\<exists>s1 evs1. processLoop env socket cs tmpl media 0 (s, []) = (out, s1, evs1)"
  using assms
  by (cases "processLoop env socket cs tmpl media 0 (s, [])")
    (auto simp: processBulkSend_def finish_def Let_def
       split: sum.splits outcome.splits option.splits)

lemma results_of_map_Some:
  assumes "map Some rs' = map Some rs @ map f [0..<k]"
  shows "length rs' = length rs + k" and "take (length rs) rs' = rs"
    and "\<forall>i<k. f i = Some (rs' ! (length rs + i))"
proof -
  show len: "length rs' = length rs + k"
    using arg_cong [OF assms, of length] by simp
  have "map Some (take (length rs) rs') = take (length rs) (map Some rs')"
    by (simp add: take_map)
  also have "\<dots> = map Some rs"
    by (simp add: assms)
  finally show "take (length rs) rs' = rs"
    by (simp add: inj_map_eq_map)
  show "\<forall>i<k. f i = Some (rs' ! (length rs + i))"
  proof (intro allI impI)
    fix i assume i: "i < k"
    have "map Some rs' ! (length rs + i) = map f [0..<k] ! i"
      unfolding assms by (simp add: nth_append)
    then show "f i = Some (rs' ! (length rs + i))"
      using i len by simp
  qed
qed

lemma sample_facts:
  "\<forall>c \<in> set sample_contacts. phone c \<noteq> None"
  "length sample_contacts = 3"
  "currentJob running_session = Some \<lparr>total_n = 3, sent = 0, failed = 0, results = []\<rparr>"
  "b_contacts sample_body = Some sample_contacts"
  "b_message sample_body = Some ''Hi {nama}''"
  "b_mediaPath sample_body = None"
  by (simp_all add: sample_contacts_def running_session_def sample_session_def sample_body_def)

lemma four_facts:
  "\<forall>c \<in> set four_contacts. phone c \<noteq> None"
  "currentJob four_session = Some \<lparr>total_n = 4, sent = 0, failed = 0, results = []\<rparr>"
  by (simp_all add: four_contacts_def sample_contacts_def four_session_def sample_session_def)

lemma flaky_env_facts:
  "\<forall>i site. io_error flaky_env i site = None"
  "\<forall>i w x. currentJob (others flaky_env i w x) = currentJob x"
  "\<forall>i w x. sendingInProgress (others flaky_env i w x) = sendingInProgress x"
  by (simp_all add: flaky_env_def sample_env_def)

subsection \<open>Failures of one recipient\<close>

text \<open>The entry of a recipient, by what the calls of the \<^verbatim>\<open>try\<close> answered.\<close>

lemma try_send_entry:
  assumes "r = result_entry c (try_send env s i ph msg media)"
  shows "r_phone r = phone c \<and> r_name r = name c
     \<and> (\<forall>m. isRegisteredUser env i ph = Inl m \<longrightarrow> status r = Failed \<and> error r = Some m)
     \<and> (isRegisteredUser env i ph = Inr False
          \<longrightarrow> status r = Failed \<and> error r = Some ''Not registered on WhatsApp'')
     \<and> (\<forall>path m. isRegisteredUser env i ph = Inr True
            \<and> media = Some path \<and> path \<noteq> [] \<and> existsSync env i path
            \<and> fromFilePath env i path = Inl m
          \<longrightarrow> status r = Failed \<and> error r = Some m)
     \<and> (\<forall>p. isRegisteredUser env i ph = Inr True
            \<and> (p = Text msg
                  \<and> \<not> (\<exists>path. media = Some path \<and> path \<noteq> [] \<and> existsSync env i path)
                \<or> (\<exists>path file. media = Some path \<and> path \<noteq> [] \<and> existsSync env i path
                      \<and> fromFilePath env i path = Inr file \<and> p = Media file msg))
          \<longrightarrow> (\<forall>m. sendMessage env i ph p = Inl m \<longrightarrow> status r = Failed \<and> error r = Some m)
            \<and> (sendMessage env i ph p = Inr () \<longrightarrow> status r = Success \<and> error r = None))"
  unfolding assms
  by (auto simp: result_entry_def try_send_def split: sum.splits option.splits)

text \<open>
  Claim C1, as the code has it. Take a run whose contacts all carry a phone, whose
  template is present and whose session holds a job, in which no call of \<^verbatim>\<open>log\<close>,
  \<^verbatim>\<open>socket.emit\<close> or \<^verbatim>\<open>saveSessionData\<close> throws and the code that runs during the waits,
  stop requests apart, neither replaces the job nor touches the flag. The function
  returns, and not by a throw: it ends \<open>Completed\<close>, or \<open>Stopped\<close> (only with the flag
  cleared at the start or by a stop request during an earlier pass), or
  \<open>QuotaExhausted\<close> (only with the count not below the limit). The flag is cleared, the
  job is kept and, when a socket is attached, \<^verbatim>\<open>bulk_complete\<close> with the job is the last
  event the function emits. Every pass before the halt appended one entry for its
  recipient, after the entries the job had, with the recipient's phone and name. The
  entry is \<open>failed\<close> with the error's message when the registration check threw,
  \<open>failed\<close> with \<^verbatim>\<open>Not registered on WhatsApp\<close> when it answered false, \<open>failed\<close> with
  the error's message when the media file could not be read or \<^verbatim>\<open>sendMessage\<close> threw,
  and \<open>success\<close> when \<^verbatim>\<open>sendMessage\<close> returned; the message is sent as a caption of the
  media when the media path is given and the file exists, and as a text otherwise. A
  failure of the typing simulation is not recorded and changes nothing: the run is the
  same whatever the typing calls do.
\<close>

theorem processBulkSend_recovers:
  assumes phones: "\<forall>c \<in> set cs. phone c \<noteq> None" and template: "tmpl \<noteq> None"
    and job: "currentJob s = Some j"
    and quiet: "\<forall>i site. io_error env i site = None"
    and kept: "\<forall>i w x. currentJob (others env i w x) = currentJob x"
    and flag: "\<forall>i w x. sendingInProgress (others env i w x) = sendingInProgress x"
  shows "\<exists>out s' evs j'.
      processBulkSend env socket cs tmpl media s = (out, s', evs)
    \<and> (out = Completed
        \<or> (\<exists>k<length cs. out = Stopped k
              \<and> (\<not> sendingInProgress s \<or> (\<exists>m w. m < k \<and> stop_request env m w)))
        \<or> (\<exists>k<length cs. out = QuotaExhausted k
              \<and> \<not> count (dailyCounter s') < dailyLimit (settings s')))
    \<and> \<not> sendingInProgress s'
    \<and> currentJob s' = Some j'
    \<and> (socket \<longrightarrow> evs \<noteq> [] \<and> last evs = BulkComplete (Some j'))
    \<and> total_n j' = total_n j
    \<and> sent j' + failed j' = sent j + failed j + attempted (length cs) out
    \<and> length (results j') = length (results j) + attempted (length cs) out
    \<and> take (length (results j)) (results j') = results j
    \<and> (\<forall>i<attempted (length cs) out. \<exists>ph msg r.
          formatPhoneNumber (phone (cs ! i)) = Inr ph
        \<and> replaceVariables tmpl (cs ! i) = Inr msg
        \<and> results j' ! (length (results j) + i) = r
        \<and> r_phone r = phone (cs ! i) \<and> r_name r = name (cs ! i)
        \<and> (\<forall>m. isRegisteredUser env i ph = Inl m \<longrightarrow> status r = Failed \<and> error r = Some m)
        \<and> (isRegisteredUser env i ph = Inr False
             \<longrightarrow> status r = Failed \<and> error r = Some ''Not registered on WhatsApp'')
        \<and> (\<forall>path m. isRegisteredUser env i ph = Inr True
               \<and> media = Some path \<and> path \<noteq> [] \<and> existsSync env i path
               \<and> fromFilePath env i path = Inl m
             \<longrightarrow> status r = Failed \<and> error r = Some m)
        \<and> (\<forall>p. isRegisteredUser env i ph = Inr True
               \<and> (p = Text msg
                     \<and> \<not> (\<exists>path. media = Some path \<and> path \<noteq> [] \<and> existsSync env i path)
                   \<or> (\<exists>path file. media = Some path \<and> path \<noteq> [] \<and> existsSync env i path
                         \<and> fromFilePath env i path = Inr file \<and> p = Media file msg))
             \<longrightarrow> (\<forall>m. sendMessage env i ph p = Inl m \<longrightarrow> status r = Failed \<and> error r = Some m)
               \<and> (sendMessage env i ph p = Inr () \<longrightarrow> status r = Success \<and> error r = None)))
    \<and> (\<forall>t. processBulkSend (env\<lparr>typing_calls := t\<rparr>) socket cs tmpl media s = (out, s', evs))"
proof -
  obtain out s1 evs1 where loop: "processLoop env socket cs tmpl media 0 (s, []) = (out, s1, evs1)"
    by (cases "processLoop env socket cs tmpl media 0 (s, [])")
  from processLoop_accounting [OF loop _ _ quiet kept flag, of j s] job
  obtain j' where acc: "currentJob s1 = Some j'"
    "map Some (results j')
       = map Some (results j) @ map (attempt_entry env s cs tmpl media) [0..<attempted (length cs) out]"
    and counts: "total_n j' = total_n j"
      "sent j' + failed j' = sent j + failed j + attempted (length cs) out"
    by auto
  have present: "attempt_entry env s cs tmpl media k \<noteq> None" if "k < length cs" for k
  proof -
    from that phones obtain p where "phone (cs ! k) = Some p" by fastforce
    moreover from template obtain t where "tmpl = Some t" by blast
    ultimately show ?thesis by (rule attempt_entry_present)
  qed
  from processLoop_outcome [OF loop _ quiet kept flag, of j s] job present
  have shape: "out = Completed
      \<or> (\<exists>k<length cs. out = Stopped k \<and> \<not> sendingInProgress s1
            \<and> (\<not> sendingInProgress s \<or> (\<exists>m w. m < k \<and> stop_request env m w)))
      \<or> (\<exists>k<length cs. out = QuotaExhausted k
            \<and> \<not> count (dailyCounter s1) < dailyLimit (settings s1))"
    by fastforce
  then have halt: "\<forall>k e. out \<noteq> Threw k e"
    by auto
  let ?s' = "s1\<lparr>sendingInProgress := False\<rparr>"
  let ?evs = "emit socket (BulkComplete (Some j')) evs1"
  have run: "processBulkSend env socket cs tmpl media s = (out, ?s', ?evs)"
    by (rule processBulkSend_halts [OF quiet loop acc(1) halt])
  have typing: "processBulkSend (env\<lparr>typing_calls := t\<rparr>) socket cs tmpl media s = (out, ?s', ?evs)" for t
    using run by (simp only: processBulkSend_any_typing)
  note rs = results_of_map_Some [OF acc(2)]
  have entries: "\<forall>i<attempted (length cs) out. \<exists>ph msg r.
          formatPhoneNumber (phone (cs ! i)) = Inr ph
        \<and> replaceVariables tmpl (cs ! i) = Inr msg
        \<and> results j' ! (length (results j) + i) = r
        \<and> r_phone r = phone (cs ! i) \<and> r_name r = name (cs ! i)
        \<and> (\<forall>m. isRegisteredUser env i ph = Inl m \<longrightarrow> status r = Failed \<and> error r = Some m)
        \<and> (isRegisteredUser env i ph = Inr False
             \<longrightarrow> status r = Failed \<and> error r = Some ''Not registered on WhatsApp'')
        \<and> (\<forall>path m. isRegisteredUser env i ph = Inr True
               \<and> media = Some path \<and> path \<noteq> [] \<and> existsSync env i path
               \<and> fromFilePath env i path = Inl m
             \<longrightarrow> status r = Failed \<and> error r = Some m)
        \<and> (\<forall>p. isRegisteredUser env i ph = Inr True
               \<and> (p = Text msg
                     \<and> \<not> (\<exists>path. media = Some path \<and> path \<noteq> [] \<and> existsSync env i path)
                   \<or> (\<exists>path file. media = Some path \<and> path \<noteq> [] \<and> existsSync env i path
                         \<and> fromFilePath env i path = Inr file \<and> p = Media file msg))
             \<longrightarrow> (\<forall>m. sendMessage env i ph p = Inl m \<longrightarrow> status r = Failed \<and> error r = Some m)
               \<and> (sendMessage env i ph p = Inr () \<longrightarrow> status r = Success \<and> error r = None))"
  proof (intro allI impI)
    fix i assume "i < attempted (length cs) out"
    with rs(3) have "attempt_entry env s cs tmpl media i
        = Some (results j' ! (length (results j) + i))"
      by simp
    from attempt_entry_Some [OF this]
    obtain ph msg where ph: "formatPhoneNumber (phone (cs ! i)) = Inr ph"
      and msg: "replaceVariables tmpl (cs ! i) = Inr msg"
      and r: "results j' ! (length (results j) + i)
          = result_entry (cs ! i) (try_send env s i ph msg media)"
      by blast
    from ph msg try_send_entry [OF r]
    show "\<exists>ph msg r.
          formatPhoneNumber (phone (cs ! i)) = Inr ph
        \<and> replaceVariables tmpl (cs ! i) = Inr msg
        \<and> results j' ! (length (results j) + i) = r
        \<and> r_phone r = phone (cs ! i) \<and> r_name r = name (cs ! i)
        \<and> (\<forall>m. isRegisteredUser env i ph = Inl m \<longrightarrow> status r = Failed \<and> error r = Some m)
        \<and> (isRegisteredUser env i ph = Inr False
             \<longrightarrow> status r = Failed \<and> error r = Some ''Not registered on WhatsApp'')
        \<and> (\<forall>path m. isRegisteredUser env i ph = Inr True
               \<and> media = Some path \<and> path \<noteq> [] \<and> existsSync env i path
               \<and> fromFilePath env i path = Inl m
             \<longrightarrow> status r = Failed \<and> error r = Some m)
        \<and> (\<forall>p. isRegisteredUser env i ph = Inr True
               \<and> (p = Text msg
                     \<and> \<not> (\<exists>path. media = Some path \<and> path \<noteq> [] \<and> existsSync env i path)
                   \<or> (\<exists>path file. media = Some path \<and> path \<noteq> [] \<and> existsSync env i path
                         \<and> fromFilePath env i path = Inr file \<and> p = Media file msg))
             \<longrightarrow> (\<forall>m. sendMessage env i ph p = Inl m \<longrightarrow> status r = Failed \<and> error r = Some m)
               \<and> (sendMessage env i ph p = Inr () \<longrightarrow> status r = Success \<and> error r = None))"
      by blast
  qed
  have shape': "out = Completed
      \<or> (\<exists>k<length cs. out = Stopped k
            \<and> (\<not> sendingInProgress s \<or> (\<exists>m w. m < k \<and> stop_request env m w)))
      \<or> (\<exists>k<length cs. out = QuotaExhausted k
            \<and> \<not> count (dailyCounter ?s') < dailyLimit (settings ?s'))"
    using shape by auto
  have last: "socket \<longrightarrow> ?evs \<noteq> [] \<and> last ?evs = BulkComplete (Some j')"
    using emit_last by blast
  have flag': "\<not> sendingInProgress ?s'" and job': "currentJob ?s' = Some j'"
    using acc(1) by simp_all
  from run shape' flag' job' last counts rs(1,2) entries typing
  show ?thesis
    by (intro exI [of _ out] exI [of _ ?s'] exI [of _ ?evs] exI [of _ j'] conjI allI) blast+
qed

theorem processBulkSend_recovers_witness:
  "fst (processBulkSend flaky_env True four_contacts (Some ''Hi {nama}'') None four_session)
     = Completed
   \<and> map_option (map (\<lambda>r. (status r, error r)) \<circ> results)
        (currentJob (fst (snd (processBulkSend flaky_env True four_contacts
           (Some ''Hi {nama}'') None four_session))))
      = Some [(Failed, Some ''Evaluation failed''),
              (Failed, Some ''Not registered on WhatsApp''),
              (Failed, Some ''timeout''),
              (Success, None)]
   \<and> processBulkSend (flaky_env\<lparr>typing_calls := (\<lambda>i ph. Inr ())\<rparr>) True four_contacts
        (Some ''Hi {nama}'') None four_session
      = processBulkSend flaky_env True four_contacts (Some ''Hi {nama}'') None four_session"
proof -
  let ?run = "processBulkSend flaky_env True four_contacts (Some ''Hi {nama}'') None four_session"
  have template: "Some ''Hi {nama}'' \<noteq> None" by simp
  from processBulkSend_recovers [OF four_facts(1) template four_facts(2) flaky_env_facts,
      of True None]
  obtain out s' evs where run: "?run = (out, s', evs)"
    and typing: "\<forall>t. processBulkSend (flaky_env\<lparr>typing_calls := t\<rparr>) True four_contacts
        (Some ''Hi {nama}'') None four_session = (out, s', evs)"
    by blast
  have a: "fst ?run = Completed"
    by code_simp
  have b: "map_option (map (\<lambda>r. (status r, error r)) \<circ> results) (currentJob (fst (snd ?run)))
      = Some [(Failed, Some ''Evaluation failed''),
              (Failed, Some ''Not registered on WhatsApp''),
              (Failed, Some ''timeout''),
              (Success, None)]"
    by code_simp
  have c: "processBulkSend (flaky_env\<lparr>typing_calls := (\<lambda>i ph. Inr ())\<rparr>) True four_contacts
        (Some ''Hi {nama}'') None four_session = ?run"
    using typing run by simp
  from a b c show ?thesis by blast
qed

text \<open>
  The claim as the specification states it fails for the typing simulation: with typing
  simulation on and every typing call failing, the three recipients are recorded as
  \<open>success\<close> with no error.
\<close>

theorem typing_failure_not_recorded:
  "simulateTyping (settings running_session)
   \<and> typing_calls typing_fails_env 0 ''62811@c.us'' = Inl ''typing failed''
   \<and> fst (processBulkSend typing_fails_env True sample_contacts (Some ''Hi {nama}'') None
            running_session) = Completed
   \<and> map_option results
        (currentJob (fst (snd (processBulkSend typing_fails_env True sample_contacts
           (Some ''Hi {nama}'') None running_session))))
      = Some [\<lparr>r_phone = Some ''0811'', r_name = Some ''Ani'', status = Success, error = None\<rparr>,
              \<lparr>r_phone = Some ''0812'', r_name = Some ''Budi'', status = Success, error = None\<rparr>,
              \<lparr>r_phone = Some ''0813'', r_name = None, status = Success, error = None\<rparr>]"
  by code_simp

subsection \<open>The final job snapshot\<close>

text \<open>
  A run started by an accepted request for the contacts \<open>cs\<close>, in which no call of
  \<^verbatim>\<open>log\<close>, \<^verbatim>\<open>socket.emit\<close> or \<^verbatim>\<open>saveSessionData\<close> throws and the code that runs during
  the waits, stop requests apart, neither replaces the job nor touches the flag: when
  it ends \<open>Completed\<close>, \<open>Stopped\<close> or \<open>QuotaExhausted\<close>, the job it leaves has the
  number of contacts as total, sent plus failed is the number of result entries, and
  the entries are those of the recipients before the halt, in order. So total minus
  sent minus failed is the number of recipients never attempted.
\<close>

lemma undisturbed_run_accounting:
  assumes start: "send_bulk (Some s0) body = (SendingStarted n, Some s1)"
    and contacts: "b_contacts body = Some cs"
    and run: "processBulkSend env socket cs (b_message body) (b_mediaPath body) s1 = (out, s', evs)"
    and halt: "\<forall>k e. out \<noteq> Threw k e"
    and quiet: "\<forall>i site. io_error env i site = None"
    and kept: "\<forall>i w x. currentJob (others env i w x) = currentJob x"
    and flag: "\<forall>i w x. sendingInProgress (others env i w x) = sendingInProgress x"
  shows "\<exists>j'. currentJob s' = Some j'
     \<and> (socket \<longrightarrow> evs \<noteq> [] \<and> last evs = BulkComplete (Some j'))
     \<and> n = length cs \<and> total_n j' = length cs
     \<and> sent j' + failed j' = length (results j')
     \<and> length (results j') = attempted (length cs) out
     \<and> map r_phone (results j') = map phone (take (attempted (length cs) out) cs)
     \<and> int (total_n j') - int (sent j') - int (failed j')
         = int (length cs) - int (attempted (length cs) out)
     \<and> (out = Completed \<longrightarrow> sent j' + failed j' = total_n j')
     \<and> ((\<exists>k. out = Stopped k \<or> out = QuotaExhausted k) \<longrightarrow> sent j' + failed j' < total_n j')"
proof -
  let ?j = "\<lparr>total_n = length cs, sent = 0, failed = 0, results = []\<rparr>"
  let ?k = "attempted (length cs) out"
  have started: "n = length cs" "currentJob s1 = Some ?j"
    using start contacts by (auto simp: send_bulk_def split: if_splits option.splits)
  from processBulkSend_throws [OF run halt]
  obtain s2 evs2 where loop:
    "processLoop env socket cs (b_message body) (b_mediaPath body) 0 (s1, []) = (out, s2, evs2)"
    by blast
  from processLoop_accounting [OF loop _ _ quiet kept flag, of ?j s1] started(2)
  obtain j' where acc: "currentJob s2 = Some j'" "total_n j' = length cs" "?k \<le> length cs"
    "sent j' + failed j' = ?k"
    "map Some (results j')
       = map (attempt_entry env s1 cs (b_message body) (b_mediaPath body)) [0..<?k]"
    by auto
  have final: "s' = s2\<lparr>sendingInProgress := False\<rparr>"
    "evs = emit socket (BulkComplete (Some j')) evs2"
    using processBulkSend_halts [OF quiet loop acc(1) halt] run by simp_all
  have "map Some (results j')
      = map Some [] @ map (attempt_entry env s1 cs (b_message body) (b_mediaPath body)) [0..<?k]"
    using acc(5) by simp
  from results_of_map_Some [OF this]
  have rs: "length (results j') = ?k"
    "\<forall>i<?k. attempt_entry env s1 cs (b_message body) (b_mediaPath body) i
        = Some (results j' ! i)"
    by simp_all
  have phones: "map r_phone (results j') = map phone (take ?k cs)"
  proof (rule nth_equalityI)
    show "length (map r_phone (results j')) = length (map phone (take ?k cs))"
      using rs(1) acc(3) by simp
  next
    fix i assume "i < length (map r_phone (results j'))"
    then have i: "i < ?k" using rs(1) by simp
    then have "attempt_entry env s1 cs (b_message body) (b_mediaPath body) i
        = Some (results j' ! i)"
      using rs(2) by simp
    from attempt_entry_contact [OF this] i acc(3) rs(1)
    show "map r_phone (results j') ! i = map phone (take ?k cs) ! i"
      by simp
  qed
  have early: "?k < length cs" if "out = Stopped k \<or> out = QuotaExhausted k" for k
    using processLoop_outcome [OF loop _ quiet kept flag, of ?j s1] started(2) that by auto
  have "currentJob s' = Some j'
     \<and> (socket \<longrightarrow> evs \<noteq> [] \<and> last evs = BulkComplete (Some j'))
     \<and> n = length cs \<and> total_n j' = length cs
     \<and> sent j' + failed j' = length (results j')
     \<and> length (results j') = ?k
     \<and> map r_phone (results j') = map phone (take ?k cs)
     \<and> int (total_n j') - int (sent j') - int (failed j') = int (length cs) - int ?k
     \<and> (out = Completed \<longrightarrow> sent j' + failed j' = total_n j')
     \<and> ((\<exists>k. out = Stopped k \<or> out = QuotaExhausted k) \<longrightarrow> sent j' + failed j' < total_n j')"
    using final acc(1-4) started(1) rs(1) phones early emit_last [of socket]
    by auto
  then show ?thesis by blast
qed

text \<open>
  The stop handler clears the flag while the loop still waits, and the start handler
  reads only the flag: a start request that arrives then is accepted.
\<close>

lemma start_after_stop_is_accepted:
  "fst (loop_body stop_in_delay_env True sample_contacts (Some ''Hi {nama}'') None 0
          (running_session, [])) = None
   \<and> \<not> sendingInProgress (fst (snd (loop_body stop_in_delay_env True sample_contacts
          (Some ''Hi {nama}'') None 0 (running_session, []))))
   \<and> fst (send_bulk (Some (fst (snd (loop_body stop_in_delay_env True sample_contacts
          (Some ''Hi {nama}'') None 0 (running_session, []))))) second_body)
      = SendingStarted 2"
  by code_simp

text \<open>
  Claim C8 fails in the code for such a request. The sample run is started for three
  contacts; during the wait after its first recipient the stop handler runs and a
  second start request, for two other contacts, is accepted. The accepted request
  replaces the job and sets the flag again, so the first loop goes on at its next pass
  and counts into the job of the second request. The first run ends \<open>Stopped\<close> before
  its third recipient; the job of its final snapshot has total 2 and sent 3, and one of
  the three entries is a recipient of the first request.
\<close>

theorem second_start_breaks_accounting:
  "send_bulk (Some sample_session) sample_body = (SendingStarted 3, Some running_session)
   \<and> fst (processBulkSend second_start_env True sample_contacts (b_message sample_body)
            (b_mediaPath sample_body) running_session) = Stopped 2
   \<and> currentJob (fst (snd (processBulkSend second_start_env True sample_contacts
        (b_message sample_body) (b_mediaPath sample_body) running_session)))
      = Some \<lparr>total_n = 2, sent = 3, failed = 0,
          results =
            [\<lparr>r_phone = Some ''0821'', r_name = Some ''Citra'', status = Success, error = None\<rparr>,
             \<lparr>r_phone = Some ''0812'', r_name = Some ''Budi'', status = Success, error = None\<rparr>,
             \<lparr>r_phone = Some ''0822'', r_name = Some ''Dewi'', status = Success, error = None\<rparr>]\<rparr>
   \<and> last (snd (snd (processBulkSend second_start_env True sample_contacts
        (b_message sample_body) (b_mediaPath sample_body) running_session)))
      = BulkComplete (currentJob (fst (snd (processBulkSend second_start_env True sample_contacts
          (b_message sample_body) (b_mediaPath sample_body) running_session))))"
  by code_simp

text \<open>
  A \<^verbatim>\<open>log\<close> that throws after the recipient was counted as sent (line 676, inside the
  \<^verbatim>\<open>try\<close>) makes the \<^verbatim>\<open>catch\<close> count the same recipient as failed too: three
  recipients leave four entries.
\<close>

lemma log_failure_records_twice:
  "fst (processBulkSend log_fails_env True sample_contacts (Some ''Hi {nama}'') None
          running_session) = Completed
   \<and> map_option (\<lambda>j. (total_n j, sent j, failed j, map (\<lambda>r. (r_phone r, status r, error r)) (results j)))
        (currentJob (fst (snd (processBulkSend log_fails_env True sample_contacts
           (Some ''Hi {nama}'') None running_session))))
      = Some (3, 3, 1,
          [(Some ''0811'', Success, None), (Some ''0811'', Failed, Some ''ENOSPC''),
           (Some ''0812'', Success, None), (Some ''0813'', Success, None)])"
  by code_simp

subsection \<open>A stop request during the batch rest\<close>

text \<open>
  Claim C2, as the code has it. When the pass for recipient \<open>i\<close> takes a batch rest and
  the stop handler runs during that wait, the flag is not read again before the
  recipient is processed: recipient \<open>i\<close> is attempted and its entry is appended, the
  events of the pass are the batch rest and the recipient's outcome with no waiting
  event after them, and the loop is left at the top of the next pass (\<open>Stopped\<close> at
  \<open>i + 1\<close>), or completes when \<open>i\<close> was the last recipient. This is the pass in which
  \<^verbatim>\<open>log\<close> and \<^verbatim>\<open>socket.emit\<close> do not throw and the code that runs during its waits, the
  stop request apart, neither replaces the job nor touches the flag.
\<close>

theorem stop_during_batch_rest:
  assumes inside: "i < length cs" and running: "sendingInProgress s"
    and allowed: "fst (checkDailyLimit (today_at env i) s)"
    and due: "needsBatchRest s i" and stop: "stop_request env i BatchRestWait"
    and phone: "phone (cs ! i) \<noteq> None" and template: "tmpl \<noteq> None"
    and job: "currentJob s = Some j"
    and quiet: "\<forall>site. io_error env i site = None"
    and quiet_next: "io_error env (Suc i) LogStopped = None"
    and kept: "\<forall>w x. currentJob (others env i w x) = currentJob x"
    and flag: "\<forall>w x. sendingInProgress (others env i w x) = sendingInProgress x"
  shows "\<exists>r s' evs' j' ev.
      attempt_entry env s cs tmpl media i = Some r
    \<and> processLoop env socket cs tmpl media i (s, evs)
        = (if Suc i < length cs then Stopped (Suc i) else Completed, s', evs')
    \<and> currentJob s' = Some j'
    \<and> results j' = results j @ [r]
    \<and> sent j' + failed j' = Suc (sent j + failed j)
    \<and> \<not> sendingInProgress s'
    \<and> (ev = MessageSent r j' \<or> ev = MessageFailed r j')
    \<and> evs' = emit socket ev
               (emit socket
                  (BatchRest (getBatchRestDuration s (rest_draw env i) div 1000)
                     (int i div batchSize (settings s)))
                  evs)"
proof -
  let ?s1 = "snd (checkDailyLimit (today_at env i) s)"
  let ?s2 = "resume env i BatchRestWait ?s1"
  let ?evs2 = "emit socket
      (BatchRest (getBatchRestDuration s (rest_draw env i) div 1000)
         (int i div batchSize (settings s))) evs"
  let ?s3 = "resume env i TransportCalls ?s2"
  from phone obtain p where "phone (cs ! i) = Some p" by blast
  moreover from template obtain t where "tmpl = Some t" by blast
  ultimately obtain r where r: "attempt_entry env s cs tmpl media i = Some r"
    using attempt_entry_present [of cs i p tmpl t env s media] by blast
  from attempt_entry_Some [OF r]
  obtain ph msg where ph: "formatPhoneNumber (phone (cs ! i)) = Inr ph"
    and msg: "replaceVariables tmpl (cs ! i) = Inr msg"
    and r_def: "r = result_entry (cs ! i) (try_send env s i ph msg media)"
    by blast
  let ?sending = "try_send env ?s2 i ph msg media"
  have sending: "?sending = try_send env s i ph msg media"
    by (rule try_send_any_session)
  have stopped2: "\<not> sendingInProgress ?s2"
    using stop flag by (simp add: resume_flag)
  have stopped3: "\<not> sendingInProgress ?s3"
    using stopped2 flag by (simp add: resume_flag)
  have "currentJob ?s3 = Some j"
    using job kept by (simp add: resume_job)
  from record_outcome_job [OF quiet this, of socket "cs ! i" ?sending ?evs2]
  obtain s4 evs4 j' where rec: "record_outcome env socket i (cs ! i) ?sending (?s3, ?evs2)
        = (None, s4, evs4)"
    and j': "currentJob s4 = Some j'" "results j' = results j @ [r]"
      "sent j' + failed j' = Suc (sent j + failed j)"
      "sendingInProgress s4 = sendingInProgress ?s3"
    and evs4: "evs4 = emit socket
           (case ?sending of Inr u \<Rightarrow> MessageSent r j' | Inl m \<Rightarrow> MessageFailed r j') ?evs2"
    unfolding sending r_def by blast
  have stopped: "\<not> sendingInProgress s4"
    using j'(4) stopped3 by simp
  have "\<exists>ev. (ev = MessageSent r j' \<or> ev = MessageFailed r j') \<and> evs4 = emit socket ev ?evs2"
    using evs4 by (cases ?sending) auto
  then obtain ev where ev: "ev = MessageSent r j' \<or> ev = MessageFailed r j'"
    "evs4 = emit socket ev ?evs2"
    by blast
  have pass: "loop_body env socket cs tmpl media i (s, evs) = (None, s4, evs4)"
    using running allowed due ph msg rec stopped
    by (simp add: loop_body_quiet [OF quiet] Let_def)
  have "processLoop env socket cs tmpl media (Suc i) (s4, evs4)
      = (if Suc i < length cs then Stopped (Suc i) else Completed, s4, evs4)"
  proof (cases "Suc i < length cs")
    case True
    moreover have "loop_body env socket cs tmpl media (Suc i) (s4, evs4)
        = (Some (Stopped (Suc i)), s4, evs4)"
      using stopped quiet_next by (simp add: loop_body_def log_quiet)
    ultimately show ?thesis
      by (simp add: processLoop_break)
  next
    case False
    then show ?thesis by (simp add: processLoop_stop)
  qed
  then have "processLoop env socket cs tmpl media i (s, evs)
      = (if Suc i < length cs then Stopped (Suc i) else Completed, s4, evs4)"
    using processLoop_next [OF inside pass] by simp
  with r j' stopped ev show ?thesis
    by blast
qed

lemma after_first_session_reached:
  "fst (snd (loop_body stop_in_rest_env True sample_contacts (Some ''Hi {nama}'') None 0
               (batch_of_one_session, [])))
     = after_first_session"
  by code_simp

theorem stop_during_batch_rest_witness:
  "needsBatchRest after_first_session 1
   \<and> stop_request stop_in_rest_env 1 BatchRestWait
   \<and> fst (processLoop stop_in_rest_env True sample_contacts (Some ''Hi {nama}'') None 1
            (after_first_session, [])) = Stopped 2
   \<and> (\<exists>j'. currentJob (fst (snd (processLoop stop_in_rest_env True sample_contacts
                (Some ''Hi {nama}'') None 1 (after_first_session, [])))) = Some j'
          \<and> length (results j') = 2 \<and> sent j' + failed j' = 2)"
proof -
  let ?loop = "processLoop stop_in_rest_env True sample_contacts (Some ''Hi {nama}'') None 1
      (after_first_session, [])"
  have inside: "1 < length sample_contacts"
    by (simp add: sample_facts(2))
  have running: "sendingInProgress after_first_session"
    and job: "currentJob after_first_session
      = Some \<lparr>total_n = 3, sent = 1, failed = 0,
          results = [\<lparr>r_phone = Some ''0811'', r_name = Some ''Ani'',
                      status = Success, error = None\<rparr>]\<rparr>"
    by (simp_all add: after_first_session_def batch_of_one_session_def running_session_def
        sample_session_def)
  have allowed: "fst (checkDailyLimit (today_at stop_in_rest_env 1) after_first_session)"
    by code_simp
  have due: "needsBatchRest after_first_session 1"
    by code_simp
  have stop: "stop_request stop_in_rest_env 1 BatchRestWait"
    by (simp add: stop_in_rest_env_def sample_env_def)
  have phone: "phone (sample_contacts ! 1) \<noteq> None"
    by (simp add: sample_contacts_def)
  have template: "Some ''Hi {nama}'' \<noteq> None" by simp
  have quiet: "\<forall>site. io_error stop_in_rest_env 1 site = None"
    and quiet_next: "io_error stop_in_rest_env (Suc 1) LogStopped = None"
    and kept: "\<forall>w x. currentJob (others stop_in_rest_env 1 w x) = currentJob x"
    and flag: "\<forall>w x. sendingInProgress (others stop_in_rest_env 1 w x) = sendingInProgress x"
    by (simp_all add: stop_in_rest_env_def sample_env_def)
  from stop_during_batch_rest [where socket = True and media = None and evs = "[]",
      OF inside running allowed due stop phone template job quiet quiet_next kept flag]
  obtain r s' evs' j' where loop: "?loop = (if Suc 1 < length sample_contacts then Stopped (Suc 1)
        else Completed, s', evs')"
    and j': "currentJob s' = Some j'"
      "results j' = [\<lparr>r_phone = Some ''0811'', r_name = Some ''Ani'',
                      status = Success, error = None\<rparr>] @ [r]"
      "sent j' + failed j' = Suc (1 + 0)"
    by auto
  have "fst ?loop = Stopped 2"
    using loop by (simp add: sample_facts(2))
  moreover have "\<exists>j'. currentJob (fst (snd ?loop)) = Some j'
      \<and> length (results j') = 2 \<and> sent j' + failed j' = 2"
    using loop j' by simp
  ultimately show ?thesis
    using due stop by blast
qed

text \<open>
  The claim as the specification states it fails: with a batch size of 1 and a stop
  request during the rest before the second recipient, the second recipient is sent to
  and the run stops before the third.
\<close>

theorem stop_in_rest_still_sends:
  "needsBatchRest batch_of_one_session 1
   \<and> stop_request stop_in_rest_env 1 BatchRestWait
   \<and> fst (processBulkSend stop_in_rest_env True sample_contacts (Some ''Hi {nama}'') None
            batch_of_one_session) = Stopped 2
   \<and> map_option results
        (currentJob (fst (snd (processBulkSend stop_in_rest_env True sample_contacts
           (Some ''Hi {nama}'') None batch_of_one_session))))
      = Some [\<lparr>r_phone = Some ''0811'', r_name = Some ''Ani'', status = Success, error = None\<rparr>,
              \<lparr>r_phone = Some ''0812'', r_name = Some ''Budi'', status = Success, error = None\<rparr>]"
  by code_simp

section \<open>End-to-end scenarios\<close>

text \<open>
  Three recipients, batch size 25, daily limit 300, all registered and deliverable: the
  run completes with three sent, two waits of the warm-up's lower bound and no batch
  rest.
\<close>

lemma scenario_all_delivered:
  "fst (processBulkSend sample_env True sample_contacts (Some ''Hi {nama}'') None running_session)
     = Completed
   \<and> map_option (\<lambda>j. (sent j, failed j))
        (currentJob (fst (snd (processBulkSend sample_env True sample_contacts
           (Some ''Hi {nama}'') None running_session)))) = Some (3, 0)
   \<and> filter is_waiting (snd (snd (processBulkSend sample_env True sample_contacts
           (Some ''Hi {nama}'') None running_session)))
      = [Waiting 15 2 3 True, Waiting 15 3 3 True]
   \<and> filter is_batch_rest (snd (snd (processBulkSend sample_env True sample_contacts
           (Some ''Hi {nama}'') None running_session))) = []"
  by code_simp

text \<open>The second recipient is not registered: two sent, one failed, the run completes.\<close>

lemma scenario_one_unregistered:
  "fst (processBulkSend unregistered_second_env True sample_contacts (Some ''Hi {nama}'') None
          running_session) = Completed
   \<and> map_option (\<lambda>j. (sent j, failed j, map error (results j)))
        (currentJob (fst (snd (processBulkSend unregistered_second_env True sample_contacts
           (Some ''Hi {nama}'') None running_session))))
      = Some (2, 1, [None, Some ''Not registered on WhatsApp'', None])"
  by code_simp

text \<open>
  A daily limit of 1: the quota check fails before the second recipient, and the limit
  is announced once.
\<close>

lemma scenario_quota_exhausted:
  "fst (processBulkSend sample_env True sample_contacts (Some ''Hi {nama}'') None
          daily_limit_one_session) = QuotaExhausted 1
   \<and> map_option (\<lambda>j. (sent j, failed j))
        (currentJob (fst (snd (processBulkSend sample_env True sample_contacts
           (Some ''Hi {nama}'') None daily_limit_one_session)))) = Some (1, 0)
   \<and> filter is_limit_reached (snd (snd (processBulkSend sample_env True sample_contacts
           (Some ''Hi {nama}'') None daily_limit_one_session))) = [LimitReached 1]"
  by code_simp

text \<open>
  A stop request during the wait after the first recipient: the run stops with one
  sent, the other two never attempted.
\<close>

lemma scenario_stop_in_delay:
  "fst (processBulkSend stop_in_delay_env True sample_contacts (Some ''Hi {nama}'') None
          running_session) = Stopped 1
   \<and> map_option (\<lambda>j. (sent j, failed j, length (results j)))
        (currentJob (fst (snd (processBulkSend stop_in_delay_env True sample_contacts
           (Some ''Hi {nama}'') None running_session)))) = Some (1, 0, 1)"
  by code_simp

text \<open>A batch size of 1: a rest before the second and before the third recipient.\<close>

lemma scenario_batch_rest:
  "filter is_batch_rest (snd (snd (processBulkSend sample_env True sample_contacts
       (Some ''Hi {nama}'') None batch_of_one_session)))
     = [BatchRest 90 1, BatchRest 90 2]"
  by code_simp

text \<open>
  A contact without a phone: \<^verbatim>\<open>formatPhoneNumber\<close> throws outside the \<^verbatim>\<open>try\<close>, the
  function is left with the flag still set, and nothing is emitted.
\<close>

lemma missing_phone_throws:
  "fst (processBulkSend sample_env True [\<lparr>phone = None, name = Some ''Ani''\<rparr>]
          (Some ''Hi {nama}'') None running_session) = Threw 0 TypeError
   \<and> sendingInProgress (fst (snd (processBulkSend sample_env True
          [\<lparr>phone = None, name = Some ''Ani''\<rparr>] (Some ''Hi {nama}'') None running_session)))
   \<and> snd (snd (processBulkSend sample_env True [\<lparr>phone = None, name = Some ''Ani''\<rparr>]
          (Some ''Hi {nama}'') None running_session)) = []"
  by code_simp

end
